theory Spec2Isabelle
  imports Complex_Main "HOL-Library.Monad_Syntax"
begin

section \<open>Exceptions\<close>

text \<open>
  The Python exceptions that the embedded code can raise and that are not caught where
  they arise. A function that can raise returns \<open>exn + 'a\<close>, with \<open>Inl\<close> the exception.
\<close>

datatype exn = ValueError | TypeError | AttributeError | OSError

section \<open>The rate controller\<close>

subsection \<open>State and configuration\<close>

text \<open>
  The dataclass \<open>RateLimitInfo\<close>, field by field with its defaults. Python's \<open>float\<close>
  is modelled by \<open>real\<close>: the controller only multiplies by a positive constant and
  takes \<open>min\<close> and \<open>max\<close> against constants, which are all monotone, so rounding is left
  out of the model. \<open>time.time()\<close> is an input (\<open>now\<close>) where it is read.
\<close>

record RateLimitInfo =
  is_limited :: bool
  retry_after :: "int option"
  current_delay :: real
  consecutive_errors :: int
  last_request_time :: "real option"

definition RateLimitInfo_init :: RateLimitInfo where
  "RateLimitInfo_init =
     \<lparr>is_limited = False, retry_after = None, current_delay = 3 / 2,
      consecutive_errors = 0, last_request_time = None\<rparr>"

text \<open>The adaptive settings that \<open>__init__\<close> fixes for every parser instance.\<close>

definition min_delay :: real where
  "min_delay = 1 / 10"

definition max_delay :: real where
  "max_delay = 10"

definition backoff_factor :: real where
  "backoff_factor = 3 / 2"

subsection \<open>Responses as the controller reads them\<close>

text \<open>
  \<open>_check_rate_limits\<close> reads the status code and three headers of a response. Of a header
  it only uses its truth value as a Python string and the result of \<open>int()\<close> on it, so a
  header is modelled by these two observations:
  \<^item> \<open>Falsy\<close>: the header is absent (\<open>headers.get\<close> returns \<open>None\<close>) or the empty string;
  \<^item> \<open>NonInt\<close>: a non-empty string on which \<open>int()\<close> raises \<open>ValueError\<close>;
  \<^item> \<open>IntVal n\<close>: a non-empty string on which \<open>int()\<close> returns \<open>n\<close>.
\<close>

datatype header = Falsy | NonInt | IntVal int

record response =
  status_code :: int
  hdr_Retry_After :: header
  hdr_X_RateLimit_Remaining :: header
  hdr_X_Rate_Limit_Remaining :: header

text \<open>Python's \<open>a or b\<close> on two header values: \<open>a\<close> when it is truthy, \<open>b\<close> otherwise.\<close>

fun header_or :: "header \<Rightarrow> header \<Rightarrow> header" where
  "header_or Falsy b = b"
| "header_or a b = a"

subsection \<open>\<open>_check_rate_limits\<close>\<close>

text \<open>
  The part of \<open>_check_rate_limits\<close> after the status branches: the remaining-quota
  headers. It is reached for every status other than 429, 502, 503 and 504.
\<close>

definition check_remaining :: "RateLimitInfo \<Rightarrow> response \<Rightarrow> RateLimitInfo" where
  "check_remaining rl r =
     (case header_or (hdr_X_RateLimit_Remaining r) (hdr_X_Rate_Limit_Remaining r) of
        IntVal remaining_requests \<Rightarrow>
          if remaining_requests < 10
          then rl\<lparr>current_delay := max (current_delay rl) 2\<rparr>
          else rl
      | NonInt \<Rightarrow> rl
      | Falsy \<Rightarrow> rl)"

text \<open>
  \<open>_check_rate_limits\<close>: the returned flag and the updated state. The branches, their
  order and the early returns are those of the source.
\<close>

definition check_rate_limits :: "RateLimitInfo \<Rightarrow> response \<Rightarrow> bool \<times> RateLimitInfo" where
  "check_rate_limits rl r =
     (if status_code r = 429 then
        (let rl1 = rl\<lparr>is_limited := True, consecutive_errors := consecutive_errors rl + 1\<rparr>
         in case hdr_Retry_After r of
              IntVal n \<Rightarrow> (False, rl1\<lparr>retry_after := Some n\<rparr>)
            | NonInt \<Rightarrow>
                (False, rl1\<lparr>current_delay := min (current_delay rl1 * backoff_factor) max_delay\<rparr>)
            | Falsy \<Rightarrow>
                (False, rl1\<lparr>current_delay := min (current_delay rl1 * backoff_factor) max_delay\<rparr>))
      else if status_code r = 502 \<or> status_code r = 503 \<or> status_code r = 504 then
        (let rl1 = rl\<lparr>consecutive_errors := consecutive_errors rl + 1\<rparr>
         in (False, rl1\<lparr>current_delay := min (current_delay rl1 * (3 / 2)) max_delay\<rparr>))
      else if status_code r = 200 then
        (let rl1 =
           (if consecutive_errors rl > 0
            then rl\<lparr>consecutive_errors := 0,
                    current_delay := max (current_delay rl * (9 / 10)) min_delay\<rparr>
            else rl)
         in (True, check_remaining rl1 r))
      else (True, check_remaining rl r))"

subsection \<open>\<open>_adaptive_delay\<close>\<close>

text \<open>
  \<open>time.sleep\<close> raises \<open>ValueError\<close> on a negative duration; otherwise it returns after
  that time. The model returns the duration slept.
\<close>

definition sleep :: "real \<Rightarrow> exn + real" where
  "sleep d = (if d < 0 then Inl ValueError else Inr d)"

text \<open>
  \<open>_adaptive_delay\<close> with the base delay \<open>delay\<close> of the instance and the clock value
  \<open>now\<close> that \<open>time.time()\<close> returns at its end. The test \<open>if self.rate_limit.retry_after\<close>
  is Python truthiness on an \<open>Optional[int]\<close>: false for \<open>None\<close> and for \<open>0\<close>. An
  exception of \<open>sleep\<close> leaves the function before any field is written.
\<close>

definition truthy_opt_int :: "int option \<Rightarrow> bool" where
  "truthy_opt_int v = (case v of None \<Rightarrow> False | Some n \<Rightarrow> n \<noteq> 0)"

definition adaptive_delay :: "real \<Rightarrow> real \<Rightarrow> RateLimitInfo \<Rightarrow> exn + (real \<times> RateLimitInfo)" where
  "adaptive_delay delay now rl =
     (if truthy_opt_int (retry_after rl) then
        (case sleep (real_of_int (the (retry_after rl)) + 1 / 2) of
           Inl e \<Rightarrow> Inl e
         | Inr d \<Rightarrow>
             Inr (d, rl\<lparr>retry_after := None, is_limited := False,
                        last_request_time := Some now\<rparr>))
      else if consecutive_errors rl > 0 then
        (case sleep (current_delay rl) of
           Inl e \<Rightarrow> Inl e
         | Inr d \<Rightarrow> Inr (d, rl\<lparr>last_request_time := Some now\<rparr>))
      else
        (case sleep delay of
           Inl e \<Rightarrow> Inl e
         | Inr d \<Rightarrow> Inr (d, rl\<lparr>last_request_time := Some now\<rparr>)))"

subsection \<open>The handler of a failed request\<close>

text \<open>
  The state update in the \<open>except requests.exceptions.RequestException\<close> branch of
  \<open>get_decisions_list\<close> (and, identically, of \<open>download_pdf_and_extract_text\<close>).
\<close>

definition on_request_exception :: "RateLimitInfo \<Rightarrow> RateLimitInfo" where
  "on_request_exception rl =
     rl\<lparr>consecutive_errors := consecutive_errors rl + 1,
        current_delay := min (current_delay rl * (3 / 2)) max_delay\<rparr>"

subsection \<open>Sequences of outcomes\<close>

text \<open>
  What one HTTP exchange shows the controller: a response, handed to
  \<open>_check_rate_limits\<close>, or a transport failure, handled by the \<open>except\<close> branch.
\<close>

datatype outcome = Response response | TransportFailure

fun observe :: "RateLimitInfo \<Rightarrow> outcome \<Rightarrow> RateLimitInfo" where
  "observe rl (Response r) = snd (check_rate_limits rl r)"
| "observe rl TransportFailure = on_request_exception rl"

definition observe_all :: "RateLimitInfo \<Rightarrow> outcome list \<Rightarrow> RateLimitInfo" where
  "observe_all rl os = foldl observe rl os"

definition delay_in_bounds :: "RateLimitInfo \<Rightarrow> bool" where
  "delay_in_bounds rl = (min_delay \<le> current_delay rl \<and> current_delay rl \<le> max_delay)"

subsection \<open>Sample responses\<close>

text \<open>A 429 response that carries \<open>Retry-After: 0\<close> and no quota header.\<close>

definition response_429_retry_after_0 :: response where
  "response_429_retry_after_0 =
     \<lparr>status_code = 429, hdr_Retry_After = IntVal 0,
      hdr_X_RateLimit_Remaining = Falsy, hdr_X_Rate_Limit_Remaining = Falsy\<rparr>"

text \<open>A 429 response with \<open>Retry-After: 5\<close> and \<open>X-RateLimit-Remaining: 3\<close>.\<close>

definition response_429_low_quota :: response where
  "response_429_low_quota =
     \<lparr>status_code = 429, hdr_Retry_After = IntVal 5,
      hdr_X_RateLimit_Remaining = IntVal 3, hdr_X_Rate_Limit_Remaining = Falsy\<rparr>"

text \<open>A 200 response with \<open>X-RateLimit-Remaining: 3\<close>.\<close>

definition response_200_low_quota :: response where
  "response_200_low_quota =
     \<lparr>status_code = 200, hdr_Retry_After = Falsy,
      hdr_X_RateLimit_Remaining = IntVal 3, hdr_X_Rate_Limit_Remaining = Falsy\<rparr>"

section \<open>JSON values and the Python operations on them\<close>

text \<open>
  The catalogue entries are the values \<open>response.json()\<close> returns. The code handles
  them dynamically (\<open>.get\<close>, subscripts, truthiness, \<open>isinstance\<close>, \<open>str\<close>), so they are
  modelled as a datatype with these operations. An object is the list of its members
  in which a key is looked up from the front. Fractional numbers do not occur in the
  catalogue's payloads and are left out. A Python \<open>str\<close> is a \<open>string\<close>, one character
  per code point (code points below 256).
\<close>

datatype json =
    JNull
  | JBool bool
  | JInt int
  | JStr string
  | JArr "json list"
  | JObj "(string \<times> json) list"

text \<open>Python truthiness.\<close>

fun truthy :: "json \<Rightarrow> bool" where
  "truthy JNull = False"
| "truthy (JBool b) = b"
| "truthy (JInt n) = (n \<noteq> 0)"
| "truthy (JStr s) = (s \<noteq> [])"
| "truthy (JArr xs) = (xs \<noteq> [])"
| "truthy (JObj kvs) = (kvs \<noteq> [])"

text \<open>\<open>a or b\<close>.\<close>

definition py_or :: "json \<Rightarrow> json \<Rightarrow> json" where
  "py_or a b = (if truthy a then a else b)"

text \<open>
  \<open>d[k]\<close> with a string key: \<open>None\<close> stands for the exception (\<open>KeyError\<close> on an object
  without the key, \<open>TypeError\<close> on every other value).
\<close>

fun py_getitem :: "json \<Rightarrow> string \<Rightarrow> json option" where
  "py_getitem (JObj kvs) k = map_of kvs k"
| "py_getitem v k = None"

text \<open>
  \<open>d.get(k, dflt)\<close>: \<open>None\<close> stands for the \<open>AttributeError\<close> on a value that is not an
  object. \<open>d.get(k)\<close> is \<open>d.get(k, None)\<close>, and Python's \<open>None\<close> is \<open>JNull\<close>.
\<close>

fun py_get :: "json \<Rightarrow> string \<Rightarrow> json \<Rightarrow> json option" where
  "py_get (JObj kvs) k dflt = Some (case map_of kvs k of None \<Rightarrow> dflt | Some v \<Rightarrow> v)"
| "py_get v k dflt = None"

text \<open>
  \<open>v[0]\<close>: the first element of a non-empty list or the first character of a non-empty
  string; \<open>None\<close> stands for the exception (\<open>IndexError\<close>, \<open>KeyError\<close> on an object, whose
  keys are strings, \<open>TypeError\<close> otherwise).
\<close>

fun py_index0 :: "json \<Rightarrow> json option" where
  "py_index0 (JArr (x # xs)) = Some x"
| "py_index0 (JStr (c # cs)) = Some (JStr [c])"
| "py_index0 v = None"

text \<open>\<open>isinstance(v, int)\<close>: \<open>bool\<close> is a subclass of \<open>int\<close>, with \<open>True == 1\<close>.\<close>

fun is_int :: "json \<Rightarrow> bool" where
  "is_int (JInt n) = True"
| "is_int (JBool b) = True"
| "is_int v = False"

fun int_value :: "json \<Rightarrow> int" where
  "int_value (JInt n) = n"
| "int_value (JBool b) = (if b then 1 else 0)"
| "int_value v = 0"

subsection \<open>Decimal output\<close>

definition digit_char :: "nat \<Rightarrow> char" where
  "digit_char n = ''0123456789'' ! (n mod 10)"

fun dec :: "nat \<Rightarrow> string" where
  "dec n = (if n < 10 then [digit_char n] else dec (n div 10) @ [digit_char n])"

declare dec.simps [simp del]

text \<open>\<open>'%0wd' % n\<close> for \<open>n \<ge> 0\<close>.\<close>

definition pad :: "nat \<Rightarrow> nat \<Rightarrow> string" where
  "pad w n = replicate (w - length (dec n)) (CHR ''0'') @ dec n"

text \<open>\<open>str(n)\<close> of an integer.\<close>

definition show_int :: "int \<Rightarrow> string" where
  "show_int n = (if n < 0 then CHR ''-'' # dec (nat (- n)) else dec (nat n))"

text \<open>\<open>f"{n:04d}"\<close>: the sign counts in the width.\<close>

definition fmt_04d :: "int \<Rightarrow> string" where
  "fmt_04d n = (if n < 0 then CHR ''-'' # pad 3 (nat (- n)) else pad 4 (nat n))"

subsection \<open>What the platform supplies\<close>

text \<open>
  Library behaviour that the code relies on and that is fixed outside the repository:
  \<^item> \<open>repr_of\<close>: \<open>str()\<close> of a list or an object;
  \<^item> \<open>utc_offset\<close>: the offset of the process's local time zone from UTC, in seconds, at
    an instant given in epoch seconds (what \<open>time.localtime\<close> applies);
  \<^item> \<open>json_loads\<close>: \<open>json.loads\<close>, \<open>None\<close> when it raises.
\<close>

record platform =
  repr_of :: "json \<Rightarrow> string"
  utc_offset :: "int \<Rightarrow> int"
  json_loads :: "string \<Rightarrow> json option"

text \<open>\<open>str(v)\<close>, also what an f-string inserts for \<open>{v}\<close>.\<close>

fun py_str :: "platform \<Rightarrow> json \<Rightarrow> string" where
  "py_str pf (JStr s) = s"
| "py_str pf (JInt n) = show_int n"
| "py_str pf (JBool b) = (if b then ''True'' else ''False'')"
| "py_str pf JNull = ''None''"
| "py_str pf v = repr_of pf v"

subsection \<open>\<open>datetime.fromtimestamp(ms / 1000).isoformat()\<close>\<close>

record datetime =
  year :: int
  month :: int
  day :: int
  hour :: int
  minute :: int
  second :: int
  microsecond :: int

text \<open>The proleptic Gregorian date of a day number counted from 1970-01-01.\<close>

definition civil_from_days :: "int \<Rightarrow> int \<times> int \<times> int" where
  "civil_from_days days =
     (let z = days + 719468;
          era = z div 146097;
          doe = z - era * 146097;
          yoe = (doe - doe div 1460 + doe div 36524 - doe div 146096) div 365;
          y = yoe + era * 400;
          doy = doe - (365 * yoe + yoe div 4 - yoe div 100);
          mp = (5 * doy + 2) div 153;
          d = doy - (153 * mp + 2) div 5 + 1;
          m = (if mp < 10 then mp + 3 else mp - 9)
      in (if m \<le> 2 then y + 1 else y, m, d))"

text \<open>
  \<open>datetime.fromtimestamp(ms / 1000)\<close> for an integer \<open>ms\<close>, on a POSIX platform: the
  naive local time of the instant, that is the civil time of the instant shifted by
  the local offset. Whole milliseconds give whole microseconds (the quotient is taken
  exactly; the float quotient rounds to the same microsecond for every date of this
  and the last century). A year outside 1..9999 raises, which is \<open>None\<close>.
\<close>

definition fromtimestamp_ms :: "(int \<Rightarrow> int) \<Rightarrow> int \<Rightarrow> datetime option" where
  "fromtimestamp_ms offset ms =
     (let t = ms div 1000;
          us = (ms mod 1000) * 1000;
          local = t + offset t;
          sod = local mod 86400
      in case civil_from_days (local div 86400) of
           (y, m, d) \<Rightarrow>
             if 1 \<le> y \<and> y \<le> 9999
             then Some \<lparr>year = y, month = m, day = d, hour = sod div 3600,
                         minute = (sod mod 3600) div 60, second = sod mod 60,
                         microsecond = us\<rparr>
             else None)"

text \<open>\<open>isoformat()\<close> of a naive datetime: the fraction is printed only when it is not zero.\<close>

definition isoformat :: "datetime \<Rightarrow> string" where
  "isoformat dt =
     pad 4 (nat (year dt)) @ ''-'' @ pad 2 (nat (month dt)) @ ''-'' @ pad 2 (nat (day dt)) @
     ''T'' @ pad 2 (nat (hour dt)) @ '':'' @ pad 2 (nat (minute dt)) @ '':'' @
     pad 2 (nat (second dt)) @
     (if microsecond dt = 0 then [] else ''.'' @ pad 6 (nat (microsecond dt)))"



section \<open>The decision record and the normalizer\<close>

text \<open>
  The dataclass \<open>CourtDecision\<close>. Python does not enforce the annotated field types and
  the normalizer stores the catalogue's values as they come, so the fields that it
  copies hold JSON values; \<open>None\<close> is \<open>JNull\<close> there. The fields \<open>id\<close> and \<open>instance\<close> are
  written \<open>id'\<close> and \<open>instance'\<close>.
\<close>

record CourtDecision =
  id' :: json
  case_number :: json
  court_name_uz :: json
  court_name_ru :: json
  responsible_judge :: json
  speaker_judge :: json
  hearing_date :: json
  result :: json
  instance' :: json
  categories :: json
  pdf_id :: json
  pdf_name :: json
  pdf_size :: json
  pdf_url :: string
  text_file_path :: "string option"
  text_file_relative_path :: "string option"
  text_extraction_success :: bool
  extracted_text :: "string option"

definition new_api_base :: string where
  "new_api_base = ''https://adolatapi1.sud.uz''"

definition old_api_base :: string where
  "old_api_base = ''https://publication.sud.uz''"

text \<open>
  \<open>parse_decision_from_json\<close>, the branch \<open>period == "new"\<close>. The whole body stands in a
  \<open>try\<close> whose handlers return \<open>None\<close> for every exception, so each failing subscript or
  method call makes the result \<open>None\<close>.
\<close>

definition parse_decision_new :: "platform \<Rightarrow> json \<Rightarrow> CourtDecision option" where
  "parse_decision_new pf decision_data = do {
     pdf \<leftarrow> py_getitem decision_data ''pdf'';
     pdf_id_v \<leftarrow> py_getitem pdf ''id'';
     id_v \<leftarrow> py_getitem decision_data ''id'';
     case_number_v \<leftarrow> py_getitem decision_data ''case_number'';
     court_names \<leftarrow> py_getitem decision_data ''court_names'';
     uz \<leftarrow> py_get court_names ''uz'' (JStr []);
     ru \<leftarrow> py_get court_names ''ru'' (JStr []);
     responsible \<leftarrow> py_get decision_data ''responsible_judge_name'' JNull;
     speaker \<leftarrow> py_get decision_data ''speaker_judge_name'' JNull;
     hearing_date_v \<leftarrow> py_getitem decision_data ''hearing_date'';
     result_v \<leftarrow> py_getitem decision_data ''result'';
     instance_v \<leftarrow> py_getitem decision_data ''instance'';
     categories_v \<leftarrow> py_get decision_data ''categories'' (JArr []);
     pdf_name_v \<leftarrow> py_getitem pdf ''name'';
     pdf_size_v \<leftarrow> py_getitem pdf ''size'';
     Some \<lparr>id' = id_v, case_number = case_number_v, court_name_uz = uz, court_name_ru = ru,
           responsible_judge = responsible, speaker_judge = speaker,
           hearing_date = hearing_date_v, result = result_v, instance' = instance_v,
           categories = categories_v, pdf_id = pdf_id_v, pdf_name = pdf_name_v,
           pdf_size = pdf_size_v,
           pdf_url = new_api_base @ ''/public/onStream/'' @ py_str pf pdf_id_v,
           text_file_path = None, text_file_relative_path = None,
           text_extraction_success = False, extracted_text = None\<rparr>
   }"

text \<open>
  The hearing date of an old-schema entry: a truthy integer is taken for epoch
  milliseconds and converted by \<open>datetime.fromtimestamp(...).isoformat()\<close>; every other
  value is kept. The record then stores \<open>hearing_date or ''\<close>.
\<close>

definition convert_hearing_date :: "platform \<Rightarrow> json \<Rightarrow> json option" where
  "convert_hearing_date pf hearing_date_v =
     (if truthy hearing_date_v \<and> is_int hearing_date_v
      then map_option (\<lambda>dt. JStr (isoformat dt))
             (fromtimestamp_ms (utc_offset pf) (int_value hearing_date_v))
      else Some hearing_date_v)"

text \<open>
  \<open>parse_decision_from_json\<close>, the \<open>else\<close> branch (the old schema). The entry is dropped
  unless \<open>attachmentsList\<close> is truthy (the source tests it twice, through \<open>.get\<close> and
  through the subscript).
\<close>

definition parse_decision_old :: "platform \<Rightarrow> json \<Rightarrow> CourtDecision option" where
  "parse_decision_old pf decision_data = do {
     attachments \<leftarrow> py_get decision_data ''attachmentsList'' JNull;
     if truthy attachments then do {
       attachments2 \<leftarrow> py_getitem decision_data ''attachmentsList'';
       if truthy attachments2 then do {
         first \<leftarrow> py_index0 attachments2;
         file_data \<leftarrow> py_getitem first ''fileData'';
         file_id \<leftarrow> py_getitem file_data ''id'';
         hearing_date0 \<leftarrow> py_get decision_data ''hearingDate'' JNull;
         hearing_date_v \<leftarrow> convert_hearing_date pf hearing_date0;
         category \<leftarrow> py_get decision_data ''category'' JNull;
         id_v \<leftarrow> py_getitem decision_data ''id'';
         case_number_v \<leftarrow> py_get decision_data ''caseNumber'' JNull;
         db_name_uz \<leftarrow> py_get decision_data ''dbName'' (JStr []);
         db_name_ru \<leftarrow> py_get decision_data ''dbName'' (JStr []);
         judge \<leftarrow> py_get decision_data ''judge'' JNull;
         result_v \<leftarrow> py_get decision_data ''result'' (JStr []);
         pdf_name_v \<leftarrow> py_getitem file_data ''name'';
         pdf_size_v \<leftarrow> py_getitem file_data ''size'';
         Some \<lparr>id' = JStr (py_str pf id_v),
               case_number = py_or case_number_v (JStr []),
               court_name_uz = db_name_uz, court_name_ru = db_name_ru,
               responsible_judge = judge, speaker_judge = JNull,
               hearing_date = py_or hearing_date_v (JStr []),
               result = result_v, instance' = JStr ''FIRST'',
               categories =
                 (if truthy category then JArr [JObj [(''uz'', category)]] else JArr []),
               pdf_id = JStr (py_str pf file_id), pdf_name = pdf_name_v,
               pdf_size = pdf_size_v,
               pdf_url = old_api_base @ ''/api/file/download/'' @ py_str pf file_id @ ''/'',
               text_file_path = None, text_file_relative_path = None,
               text_extraction_success = False, extracted_text = None\<rparr>
       } else None
     } else None
   }"

definition parse_decision_from_json :: "platform \<Rightarrow> json \<Rightarrow> string \<Rightarrow> CourtDecision option" where
  "parse_decision_from_json pf decision_data period =
     (if period = ''new'' then parse_decision_new pf decision_data
      else parse_decision_old pf decision_data)"

subsection \<open>Sample entries and platforms\<close>

text \<open>A platform whose local time is UTC+5 all year (Asia/Tashkent).\<close>

definition platform_tashkent :: platform where
  "platform_tashkent =
     \<lparr>repr_of = (\<lambda>v. []), utc_offset = (\<lambda>t. 18000), json_loads = (\<lambda>s. None)\<rparr>"




section \<open>Text files and the attachment batch\<close>

subsection \<open>The parser instance and the files it writes\<close>

text \<open>
  What a run leaves behind, in the order it happens: the listing requests sent, the
  page metadata files written, the attachment tasks submitted and the text files
  written.
\<close>

datatype event =
    HttpGet string int
  | MetadataSaved string
  | TaskSubmitted string
  | TextSaved string

text \<open>
  The mutable state that the orchestrating thread reads and writes: the rate-limit
  state, the counters of \<open>self.stats\<close> that it maintains, the two directories of files
  (file name to content; a metadata file holds the list of serialised records), the
  number of HTTP requests it has sent, and the trace of events.
\<close>

record world =
  rate_limit :: RateLimitInfo
  pages_processed :: int
  decisions_found :: int
  errors :: int
  metadata_files :: "string \<rightharpoonup> CourtDecision list"
  text_files :: "string \<rightharpoonup> string"
  http_requests :: nat
  trace :: "event list"

subsection \<open>\<open>_create_safe_filename\<close>\<close>

definition replace_char :: "char \<Rightarrow> char \<Rightarrow> string \<Rightarrow> string" where
  "replace_char a b s = map (\<lambda>c. if c = a then b else c) s"

text \<open>The characters \<open><>:"|?*\<close>; the double quote is \<open>CHR 0x22\<close>, the backslash \<open>CHR 0x5C\<close>.\<close>

definition forbidden_chars :: string where
  "forbidden_chars = ''<>:'' @ [CHR 0x22] @ ''|?*''"

text \<open>
  \<open>decision.id[:8]\<close> as the f-string prints it: a prefix of a string, the \<open>str\<close> of a
  prefix of a list, and \<open>TypeError\<close> for every value that cannot be sliced.
\<close>

fun id_prefix :: "platform \<Rightarrow> json \<Rightarrow> exn + string" where
  "id_prefix pf (JStr s) = Inr (take 8 s)"
| "id_prefix pf (JArr xs) = Inr (repr_of pf (JArr (take 8 xs)))"
| "id_prefix pf v = Inl TypeError"

text \<open>
  \<open>_create_safe_filename\<close>: \<open>.replace\<close> exists on strings only, so a case number that is
  not a string raises \<open>AttributeError\<close>.
\<close>

definition create_safe_filename :: "platform \<Rightarrow> CourtDecision \<Rightarrow> exn + string" where
  "create_safe_filename pf decision =
     (case case_number decision of
        JStr s \<Rightarrow>
          (let case_num = replace_char (CHR 0x5C) (CHR ''_'') (replace_char (CHR ''/'') (CHR ''_'') s)
           in case id_prefix pf (id' decision) of
                Inl e \<Rightarrow> Inl e
              | Inr p \<Rightarrow>
                  Inr (foldl (\<lambda>safe_name char. replace_char char (CHR ''_'') safe_name)
                         (case_num @ ''_'' @ p) forbidden_chars))
      | JNull \<Rightarrow> Inl AttributeError
      | JBool b \<Rightarrow> Inl AttributeError
      | JInt n \<Rightarrow> Inl AttributeError
      | JArr xs \<Rightarrow> Inl AttributeError
      | JObj kvs \<Rightarrow> Inl AttributeError)"

subsection \<open>\<open>save_decision_with_text\<close>\<close>

text \<open>Truthiness of an \<open>Optional[str]\<close>.\<close>

definition truthy_opt_str :: "string option \<Rightarrow> bool" where
  "truthy_opt_str v = (case v of None \<Rightarrow> False | Some s \<Rightarrow> s \<noteq> [])"

text \<open>What is written to the text file: the header block, the separator line, the text.\<close>

definition text_file_content :: "platform \<Rightarrow> CourtDecision \<Rightarrow> string \<Rightarrow> string" where
  "text_file_content pf decision text =
     ''CASE: '' @ py_str pf (case_number decision) @ [CHR 0x0A] @
     ''COURT: '' @ py_str pf (court_name_uz decision) @ [CHR 0x0A] @
     ''JUDGE: '' @ py_str pf (py_or (responsible_judge decision) (JStr ''Not specified'')) @
       [CHR 0x0A] @
     ''DATE: '' @ py_str pf (hearing_date decision) @ [CHR 0x0A] @
     ''RESULT: '' @ py_str pf (result decision) @ [CHR 0x0A] @
     replicate 80 (CHR ''='') @ [CHR 0x0A, CHR 0x0A] @ text"

text \<open>
  \<open>save_decision_with_text\<close>. Whether opening and writing the file succeeds is an input
  (\<open>write_ok\<close>); an exception there is caught inside the function. The file name is
  built before the \<open>try\<close>, so its exception leaves the function. What a failed write
  leaves on disk is not modelled.
\<close>

definition save_decision_with_text ::
  "platform \<Rightarrow> bool \<Rightarrow> CourtDecision \<Rightarrow> world \<Rightarrow> exn + (CourtDecision \<times> world)" where
  "save_decision_with_text pf write_ok decision w =
     (if truthy_opt_str (extracted_text decision) then
        (case create_safe_filename pf decision of
           Inl e \<Rightarrow> Inl e
         | Inr safe_filename \<Rightarrow>
             if write_ok then
               Inr (decision\<lparr>text_file_path := Some (''extracted_text/'' @ safe_filename @ ''.txt''),
                             text_file_relative_path :=
                               Some (''../extracted_text/'' @ safe_filename @ ''.txt'')\<rparr>,
                    w\<lparr>text_files := (text_files w)
                          (safe_filename @ ''.txt'' \<mapsto>
                             text_file_content pf decision (the (extracted_text decision))),
                       trace := trace w @ [TextSaved (safe_filename @ ''.txt'')]\<rparr>)
             else
               Inr (decision\<lparr>text_file_path := None, text_file_relative_path := None\<rparr>, w))
      else Inr (decision\<lparr>text_file_path := None, text_file_relative_path := None\<rparr>, w))"

subsection \<open>\<open>_download_pdfs_batch\<close>\<close>

text \<open>
  The tasks run \<open>download_pdf_and_extract_text\<close> in worker threads. The orchestrating
  thread sees of a task only what \<open>future.result()\<close> does: it raises, or it returns
  \<open>None\<close> (the download or the extraction failed) or the extracted text. The inputs of
  a batch are therefore, per task (numbered by the position of its record in the page):
  \<^item> \<open>completion_order\<close>: the order in which \<open>as_completed\<close> yields the futures;
  \<^item> \<open>future_result\<close>: the result of each future;
  \<^item> \<open>text_write_ok\<close>: whether writing the record's text file succeeds;
  and what the worker threads have done to the shared state by the time the batch
  ends: \<open>workers_rate_limit\<close> for the rate-limit state and \<open>workers_errors\<close> for the
  errors they counted.
\<close>

record batch_env =
  completion_order :: "nat list"
  future_result :: "nat \<Rightarrow> exn + string option"
  text_write_ok :: "nat \<Rightarrow> bool"
  workers_rate_limit :: "RateLimitInfo \<Rightarrow> RateLimitInfo"
  workers_errors :: int

text \<open>
  The body of the loop \<open>for future in as_completed(...)\<close> for the record that the future
  belongs to. The whole body stands in a \<open>try\<close> with \<open>except Exception\<close>.
\<close>

definition on_completed ::
  "platform \<Rightarrow> (exn + string option) \<Rightarrow> bool \<Rightarrow> CourtDecision \<Rightarrow> world \<Rightarrow> CourtDecision \<times> world" where
  "on_completed pf res write_ok decision w =
     (case res of
        Inl e \<Rightarrow> (decision\<lparr>text_extraction_success := False\<rparr>, w\<lparr>errors := errors w + 1\<rparr>)
      | Inr extracted \<Rightarrow>
          if truthy_opt_str extracted then
            (let d1 = decision\<lparr>extracted_text := extracted, text_extraction_success := True\<rparr>
             in case save_decision_with_text pf write_ok d1 w of
                  Inr (d2, w2) \<Rightarrow> (d2, w2)
                | Inl e \<Rightarrow>
                    (d1\<lparr>text_extraction_success := False\<rparr>, w\<lparr>errors := errors w + 1\<rparr>))
          else (decision\<lparr>text_extraction_success := False\<rparr>, w))"

definition process_future ::
  "platform \<Rightarrow> batch_env \<Rightarrow> CourtDecision list \<times> world \<Rightarrow> nat \<Rightarrow> CourtDecision list \<times> world" where
  "process_future pf benv s i =
     (case on_completed pf (future_result benv i) (text_write_ok benv i) (fst s ! i) (snd s) of
        (d, w) \<Rightarrow> ((fst s)[i := d], w))"

text \<open>The first loop of \<open>_download_pdfs_batch\<close>: the file name of every record, outside any \<open>try\<close>.\<close>

fun safe_filenames :: "platform \<Rightarrow> CourtDecision list \<Rightarrow> exn + string list" where
  "safe_filenames pf [] = Inr []"
| "safe_filenames pf (d # ds) =
     (case create_safe_filename pf d of
        Inl e \<Rightarrow> Inl e
      | Inr n \<Rightarrow> (case safe_filenames pf ds of Inl e \<Rightarrow> Inl e | Inr ns \<Rightarrow> Inr (n # ns)))"

text \<open>
  \<open>_download_pdfs_batch\<close>: the tasks are submitted in the order of the records, the
  futures are handled in the order of their completion, and the executor is left when
  every task has ended. The records are objects that the loop updates in place; the
  model returns the list of the updated records, in the positions of the input.
\<close>

definition download_pdfs_batch ::
  "platform \<Rightarrow> batch_env \<Rightarrow> CourtDecision list \<Rightarrow> world \<Rightarrow> exn + (CourtDecision list \<times> world)" where
  "download_pdfs_batch pf benv decisions w =
     (case safe_filenames pf decisions of
        Inl e \<Rightarrow> Inl e
      | Inr names \<Rightarrow>
          (case foldl (process_future pf benv)
                  (decisions, w\<lparr>trace := trace w @ map TaskSubmitted names\<rparr>)
                  (completion_order benv) of
             (ds, w1) \<Rightarrow>
               Inr (ds, w1\<lparr>rate_limit := workers_rate_limit benv (rate_limit w1),
                            errors := errors w1 + workers_errors benv\<rparr>)))"

text \<open>A future has failed when it raised or returned no text.\<close>

definition task_failed :: "(exn + string option) \<Rightarrow> bool" where
  "task_failed res = (case res of Inl e \<Rightarrow> True | Inr extracted \<Rightarrow> \<not> truthy_opt_str extracted)"

text \<open>Records as the dataclass declares them: the case number and the id are strings.\<close>

definition well_typed :: "CourtDecision \<Rightarrow> bool" where
  "well_typed d = (case (case_number d, id' d) of (JStr c, JStr i) \<Rightarrow> True | _ \<Rightarrow> False)"

text \<open>Records as the normalizer returns them: no text paths yet.\<close>

definition no_paths :: "CourtDecision \<Rightarrow> bool" where
  "no_paths d = (text_file_path d = None \<and> text_file_relative_path d = None)"


subsection \<open>Sample records and batches\<close>

text \<open>A record as the normalizer builds it, with case number and id made from \<open>i\<close>.\<close>

definition sample_decision :: "nat \<Rightarrow> CourtDecision" where
  "sample_decision i =
     \<lparr>id' = JStr (''id-'' @ dec i), case_number = JStr (''4-1001/'' @ dec i),
      court_name_uz = JStr ''sud'', court_name_ru = JStr ''sud'',
      responsible_judge = JNull, speaker_judge = JNull, hearing_date = JStr [],
      result = JStr [], instance' = JStr ''FIRST'', categories = JArr [],
      pdf_id = JStr (dec i), pdf_name = JStr ''a.pdf'', pdf_size = JInt 10,
      pdf_url = old_api_base @ ''/api/file/download/'' @ dec i @ ''/'',
      text_file_path = None, text_file_relative_path = None,
      text_extraction_success = False, extracted_text = None\<rparr>"

text \<open>The state of a parser instance right after \<open>__init__\<close>, over empty directories.\<close>

definition world_init :: world where
  "world_init =
     \<lparr>rate_limit = RateLimitInfo_init, pages_processed = 0, decisions_found = 0, errors = 0,
      metadata_files = Map.empty, text_files = Map.empty, http_requests = 0, trace = []\<rparr>"


text \<open>
  Three tasks: the task of record 0 returns nothing, the two others return a text; only
  the text file of record 1 can be written.
\<close>

definition batch_three :: batch_env where
  "batch_three =
     \<lparr>completion_order = [2, 0, 1],
      future_result = (\<lambda>i. if i = 0 then Inr None else Inr (Some ''text of the decision'')),
      text_write_ok = (\<lambda>i. i = 1),
      workers_rate_limit = (\<lambda>rl. rl), workers_errors = 1\<rparr>"

text \<open>One task that returns a text, whose text file cannot be written.\<close>

definition batch_write_fails :: batch_env where
  "batch_write_fails =
     \<lparr>completion_order = [0],
      future_result = (\<lambda>i. Inr (Some ''text of the decision'')),
      text_write_ok = (\<lambda>i. False),
      workers_rate_limit = (\<lambda>rl. rl), workers_errors = 0\<rparr>"


section \<open>The catalogue client\<close>

text \<open>
  The outcome of one \<open>session.get\<close>: a transport failure (a \<open>RequestException\<close> raised by
  the call) or a response with its body as \<open>response.json()\<close> decodes it (\<open>None\<close> when the
  body is not JSON).
\<close>

datatype http_outcome = Transport_Error | Http_Response response "json option"

text \<open>
  The surroundings of a run, as inputs:
  \<^item> \<open>net\<close>: the outcome of the \<open>n\<close>-th request that the orchestrating thread sends;
  \<^item> \<open>clock\<close>: the value of \<open>time.time()\<close> after that many requests;
  \<^item> \<open>batch_of\<close>: the inputs of the attachment batch of a page, by its metadata file;
  \<^item> \<open>metadata_write_ok\<close>: whether writing a metadata file succeeds.
\<close>

record env =
  net :: "nat \<Rightarrow> http_outcome"
  clock :: "nat \<Rightarrow> real"
  batch_of :: "string \<Rightarrow> batch_env"
  metadata_write_ok :: "string \<Rightarrow> bool"

text \<open>
  The base delay of the instance and the arguments of \<open>parse_all_decisions\<close>. The
  number of workers bounds how many tasks run at once and has no place in the model.
\<close>

record run_config =
  delay :: real
  max_pages :: "int option"
  download_pdfs :: bool
  start_page :: int
  end_page :: "int option"
  overwrite_files :: bool

definition adaptive_delay_w :: "env \<Rightarrow> run_config \<Rightarrow> world \<Rightarrow> exn + world" where
  "adaptive_delay_w ev cfg w =
     (case adaptive_delay (delay cfg) (clock ev (http_requests w)) (rate_limit w) of
        Inl e \<Rightarrow> Inl e
      | Inr (d, rl) \<Rightarrow> Inr (w\<lparr>rate_limit := rl\<rparr>))"

definition session_get :: "env \<Rightarrow> string \<Rightarrow> int \<Rightarrow> world \<Rightarrow> http_outcome \<times> world" where
  "session_get ev period page w =
     (net ev (http_requests w),
      w\<lparr>http_requests := Suc (http_requests w), trace := trace w @ [HttpGet period page]\<rparr>)"

text \<open>The \<open>except requests.exceptions.RequestException\<close> branch of \<open>get_decisions_list\<close>.\<close>

definition request_failed :: "world \<Rightarrow> world" where
  "request_failed w =
     w\<lparr>errors := errors w + 1, rate_limit := on_request_exception (rate_limit w)\<rparr>"

text \<open>\<open>p in s\<close> on strings.\<close>

fun is_substring :: "string \<Rightarrow> string \<Rightarrow> bool" where
  "is_substring p [] = (p = [])"
| "is_substring p (c # cs) = (take (length p) (c # cs) = p \<or> is_substring p cs)"

text \<open>
  The unwrapping of an old-section payload: \<open>if "data" in data\<close>, then \<open>data["data"]\<close>,
  decoded once more when it is a string. None of the exceptions here is a
  \<open>RequestException\<close>, so they leave \<open>get_decisions_list\<close>.
\<close>

definition unwrap_old :: "platform \<Rightarrow> json \<Rightarrow> exn + json" where
  "unwrap_old pf data =
     (case data of
        JObj kvs \<Rightarrow>
          (case map_of kvs ''data'' of
             None \<Rightarrow> Inr data
           | Some (JStr s) \<Rightarrow>
               (case json_loads pf s of None \<Rightarrow> Inl ValueError | Some v \<Rightarrow> Inr v)
           | Some v \<Rightarrow> Inr v)
      | JArr xs \<Rightarrow> if JStr ''data'' \<in> set xs then Inl TypeError else Inr data
      | JStr s \<Rightarrow> if is_substring ''data'' s then Inl TypeError else Inr data
      | JNull \<Rightarrow> Inl TypeError
      | JBool b \<Rightarrow> Inl TypeError
      | JInt n \<Rightarrow> Inl TypeError)"

text \<open>
  The end of the \<open>try\<close> block of \<open>get_decisions_list\<close> for the response that is kept:
  \<open>raise_for_status()\<close> raises for the statuses 400 to 599, \<open>response.json()\<close> raises on a
  body that is not JSON (a \<open>RequestException\<close> too, in requests 2.27 and later).
\<close>

definition decode_response ::
  "platform \<Rightarrow> string \<Rightarrow> response \<Rightarrow> json option \<Rightarrow> world \<Rightarrow> exn + (json option \<times> world)" where
  "decode_response pf period r body w =
     (if 400 \<le> status_code r \<and> status_code r < 600 then Inr (None, request_failed w)
      else case body of
             None \<Rightarrow> Inr (None, request_failed w)
           | Some data \<Rightarrow>
               if period = ''old''
               then (case unwrap_old pf data of Inl e \<Rightarrow> Inl e | Inr v \<Rightarrow> Inr (Some v, w))
               else Inr (Some data, w))"

text \<open>
  \<open>get_decisions_list\<close>: a delay, the request, the controller's verdict and, when it is
  negative, one more delay and one more request, whose response is kept unexamined.
  The first delay stands before the \<open>try\<close>; an exception of a delay is no
  \<open>RequestException\<close> and leaves the function in both places.
\<close>

definition get_decisions_list ::
  "platform \<Rightarrow> env \<Rightarrow> run_config \<Rightarrow> string \<Rightarrow> int \<Rightarrow> world \<Rightarrow> exn + (json option \<times> world)" where
  "get_decisions_list pf ev cfg period page w =
     (case adaptive_delay_w ev cfg w of
        Inl e \<Rightarrow> Inl e
      | Inr w1 \<Rightarrow>
          (case session_get ev period page w1 of
             (Transport_Error, w2) \<Rightarrow> Inr (None, request_failed w2)
           | (Http_Response r body, w2) \<Rightarrow>
               (case check_rate_limits (rate_limit w2) r of
                  (True, rl) \<Rightarrow> decode_response pf period r body (w2\<lparr>rate_limit := rl\<rparr>)
                | (False, rl) \<Rightarrow>
                    (case adaptive_delay_w ev cfg (w2\<lparr>rate_limit := rl\<rparr>) of
                       Inl e \<Rightarrow> Inl e
                     | Inr w3 \<Rightarrow>
                         (case session_get ev period page w3 of
                            (Transport_Error, w4) \<Rightarrow> Inr (None, request_failed w4)
                          | (Http_Response r2 body2, w4) \<Rightarrow>
                              decode_response pf period r2 body2 w4)))))"

section \<open>The orchestrator\<close>

subsection \<open>The page range of a section\<close>

text \<open>\<open>if max_pages: total_pages = min(total_pages, max_pages)\<close>.\<close>

definition limited_total_pages :: "run_config \<Rightarrow> int \<Rightarrow> int" where
  "limited_total_pages cfg total_pages =
     (if truthy_opt_int (max_pages cfg) then min total_pages (the (max_pages cfg))
      else total_pages)"

text \<open>The exclusive end of the range: \<open>end_page\<close> is inclusive, so one is added.\<close>

definition actual_end_page :: "run_config \<Rightarrow> int \<Rightarrow> int" where
  "actual_end_page cfg total_pages =
     (case end_page cfg of Some e \<Rightarrow> min (e + 1) total_pages | None \<Rightarrow> total_pages)"

text \<open>
  The two tests that skip a section and the pages of \<open>range(start_page,
  actual_end_page)\<close> otherwise; \<open>None\<close> is the skip. The argument is the \<open>totalPages\<close> of
  the first page.
\<close>

definition pages_to_process :: "run_config \<Rightarrow> int \<Rightarrow> int list option" where
  "pages_to_process cfg total_pages0 =
     (let total_pages = limited_total_pages cfg total_pages0;
          aep = actual_end_page cfg total_pages
      in if start_page cfg > 0 \<and> start_page cfg \<ge> total_pages then None
         else if start_page cfg \<ge> aep then None
         else Some [start_page cfg .. aep - 1])"

subsection \<open>One page\<close>

definition page_metadata_file :: "string \<Rightarrow> int \<Rightarrow> string" where
  "page_metadata_file period page = ''page_'' @ period @ ''_'' @ fmt_04d page @ ''.json''"

text \<open>\<open>to_dict\<close>: every field but the extracted text.\<close>

definition to_dict :: "CourtDecision \<Rightarrow> CourtDecision" where
  "to_dict d = d\<lparr>extracted_text := None\<rparr>"

text \<open>
  \<open>save_metadata\<close> for the page identifier \<open>f"{period}_{page:04d}"\<close>: the file
  \<open>page_<identifier>.json\<close> gets the serialised records. A failing write raises, and the
  exception leaves \<open>parse_all_decisions\<close>.
\<close>

definition save_metadata :: "env \<Rightarrow> CourtDecision list \<Rightarrow> string \<Rightarrow> world \<Rightarrow> exn + world" where
  "save_metadata ev decisions page_identifier w =
     (let metadata_file = ''page_'' @ page_identifier @ ''.json''
      in if metadata_write_ok ev metadata_file
         then Inr (w\<lparr>metadata_files := (metadata_files w)(metadata_file \<mapsto> map to_dict decisions),
                     trace := trace w @ [MetadataSaved metadata_file]\<rparr>)
         else Inl OSError)"

text \<open>The skip test: the metadata file of the page exists and overwriting is off.\<close>

definition skips_page :: "run_config \<Rightarrow> string \<Rightarrow> int \<Rightarrow> world \<Rightarrow> bool" where
  "skips_page cfg period page w =
     (\<not> overwrite_files cfg \<and> metadata_files w (page_metadata_file period page) \<noteq> None)"

text \<open>
  The page data: the first page already loaded when the range starts at page 0,
  a request otherwise.
\<close>

definition fetch_page ::
  "platform \<Rightarrow> env \<Rightarrow> run_config \<Rightarrow> string \<Rightarrow> json \<Rightarrow> int \<Rightarrow> world \<Rightarrow> exn + (json option \<times> world)" where
  "fetch_page pf ev cfg period first_page_data page w =
     (if page = start_page cfg \<and> start_page cfg = 0 then Inr (Some first_page_data, w)
      else get_decisions_list pf ev cfg period page w)"

text \<open>\<open>for x in v\<close>: the elements of a list, the characters of a string, the keys of an object.\<close>

fun iterate :: "json \<Rightarrow> exn + json list" where
  "iterate (JArr xs) = Inr xs"
| "iterate (JStr s) = Inr (map (\<lambda>c. JStr [c]) s)"
| "iterate (JObj kvs) = Inr (map JStr (remdups (map fst kvs)))"
| "iterate v = Inl TypeError"

definition page_entries :: "json \<Rightarrow> exn + json list" where
  "page_entries page_data =
     (case py_get page_data ''content'' (JArr []) of
        None \<Rightarrow> Inl AttributeError
      | Some content \<Rightarrow> iterate content)"

text \<open>The normalized records of a page: the entries that the normalizer does not drop.\<close>

definition page_records :: "platform \<Rightarrow> string \<Rightarrow> json list \<Rightarrow> CourtDecision list" where
  "page_records pf period entries =
     List.map_filter (\<lambda>decision_data. parse_decision_from_json pf decision_data period) entries"

text \<open>
  The block \<open>if page_decisions:\<close>. The records collected in \<open>all_decisions\<close> are the objects
  that the batch updates, so the list gets the records as the batch leaves them.
\<close>

definition store_page ::
  "platform \<Rightarrow> env \<Rightarrow> run_config \<Rightarrow> string \<Rightarrow> int \<Rightarrow> CourtDecision list \<Rightarrow>
   CourtDecision list \<times> world \<Rightarrow> exn + (CourtDecision list \<times> world)" where
  "store_page pf ev cfg period page page_decisions s =
     (case s of (all_decisions, w) \<Rightarrow>
        if page_decisions \<noteq> [] then
          (case save_metadata ev page_decisions (period @ ''_'' @ fmt_04d page)
                  (w\<lparr>decisions_found := decisions_found w + int (length page_decisions)\<rparr>) of
             Inl e \<Rightarrow> Inl e
           | Inr w1 \<Rightarrow>
               if download_pdfs cfg then
                 (case download_pdfs_batch pf (batch_of ev (page_metadata_file period page))
                         page_decisions w1 of
                    Inl e \<Rightarrow> Inl e
                  | Inr (ds, w2) \<Rightarrow> Inr (all_decisions @ ds, w2))
               else Inr (all_decisions @ page_decisions, w1))
        else Inr (all_decisions, w))"

text \<open>The pause after a page that is not the last of the range.\<close>

definition between_pages :: "env \<Rightarrow> run_config \<Rightarrow> int \<Rightarrow> int \<Rightarrow> world \<Rightarrow> exn + world" where
  "between_pages ev cfg aep page w =
     (if page < aep - 1 \<and> consecutive_errors (rate_limit w) = 0 then
        (case sleep (1 / 10) of Inl e \<Rightarrow> Inl e | Inr d \<Rightarrow> Inr w)
      else if page < aep - 1 then adaptive_delay_w ev cfg w
      else Inr w)"

text \<open>
  The body of the loop over the pages. Each \<open>continue\<close> of the source returns the state
  reached so far.
\<close>

definition process_page ::
  "platform \<Rightarrow> env \<Rightarrow> run_config \<Rightarrow> string \<Rightarrow> json \<Rightarrow> int \<Rightarrow> int \<Rightarrow>
   CourtDecision list \<times> world \<Rightarrow> exn + (CourtDecision list \<times> world)" where
  "process_page pf ev cfg period first_page_data aep page s =
     (case s of (all_decisions, w) \<Rightarrow>
        if skips_page cfg period page w then Inr (all_decisions, w)
        else
          (case fetch_page pf ev cfg period first_page_data page w of
             Inl e \<Rightarrow> Inl e
           | Inr (None, w1) \<Rightarrow> Inr (all_decisions, w1)
           | Inr (Some page_data, w1) \<Rightarrow>
               if truthy page_data then
                 (case page_entries page_data of
                    Inl e \<Rightarrow> Inl e
                  | Inr entries \<Rightarrow>
                      (case store_page pf ev cfg period page (page_records pf period entries)
                              (all_decisions, w1) of
                         Inl e \<Rightarrow> Inl e
                       | Inr (all2, w2) \<Rightarrow>
                           (case between_pages ev cfg aep page
                                   (w2\<lparr>pages_processed := pages_processed w2 + 1\<rparr>) of
                              Inl e \<Rightarrow> Inl e
                            | Inr w3 \<Rightarrow> Inr (all2, w3))))
               else Inr (all_decisions, w1)))"

fun process_pages ::
  "platform \<Rightarrow> env \<Rightarrow> run_config \<Rightarrow> string \<Rightarrow> json \<Rightarrow> int \<Rightarrow> int list \<Rightarrow>
   CourtDecision list \<times> world \<Rightarrow> exn + (CourtDecision list \<times> world)" where
  "process_pages pf ev cfg period first_page_data aep [] s = Inr s"
| "process_pages pf ev cfg period first_page_data aep (page # pages) s =
     (case process_page pf ev cfg period first_page_data aep page s of
        Inl e \<Rightarrow> Inl e
      | Inr s1 \<Rightarrow> process_pages pf ev cfg period first_page_data aep pages s1)"

subsection \<open>Sections and the whole run\<close>

text \<open>
  A number of the first page as the comparisons and \<open>min\<close> use it: an integer or a
  Boolean; on every other value the first comparison raises \<open>TypeError\<close>.
\<close>

fun as_number :: "json \<Rightarrow> exn + int" where
  "as_number (JInt n) = Inr n"
| "as_number (JBool b) = Inr (if b then 1 else 0)"
| "as_number v = Inl TypeError"

text \<open>
  One section: the first page gives the number of pages; a first page that cannot be
  had skips the section.
\<close>

definition process_section ::
  "platform \<Rightarrow> env \<Rightarrow> run_config \<Rightarrow> string \<Rightarrow> CourtDecision list \<times> world \<Rightarrow>
   exn + (CourtDecision list \<times> world)" where
  "process_section pf ev cfg period s =
     (case s of (all_decisions, w) \<Rightarrow>
        (case get_decisions_list pf ev cfg period 0 w of
           Inl e \<Rightarrow> Inl e
         | Inr (None, w1) \<Rightarrow> Inr (all_decisions, w1)
         | Inr (Some first_page_data, w1) \<Rightarrow>
             if truthy first_page_data then
               (case py_get first_page_data ''totalPages'' (JInt 0) of
                  None \<Rightarrow> Inl AttributeError
                | Some total_pages_v \<Rightarrow>
                    (case py_get first_page_data ''totalElements'' (JInt 0) of
                       None \<Rightarrow> Inl AttributeError
                     | Some total_elements_v \<Rightarrow>
                         (case as_number total_elements_v of
                            Inl e \<Rightarrow> Inl e
                          | Inr total_elements \<Rightarrow>
                              (case as_number total_pages_v of
                                 Inl e \<Rightarrow> Inl e
                               | Inr total_pages \<Rightarrow>
                                   (case pages_to_process cfg total_pages of
                                      None \<Rightarrow> Inr (all_decisions, w1)
                                    | Some pages \<Rightarrow>
                                        process_pages pf ev cfg period first_page_data
                                          (actual_end_page cfg (limited_total_pages cfg total_pages))
                                          pages (all_decisions, w1))))))
             else Inr (all_decisions, w1)))"

definition sections_to_process :: "string \<Rightarrow> exn + string list" where
  "sections_to_process section_name =
     (if section_name = ''new'' then Inr [''new'']
      else if section_name = ''old'' then Inr [''old'']
      else if section_name = ''both'' then Inr [''new'', ''old'']
      else Inl ValueError)"

fun process_sections ::
  "platform \<Rightarrow> env \<Rightarrow> run_config \<Rightarrow> string list \<Rightarrow> CourtDecision list \<times> world \<Rightarrow>
   exn + (CourtDecision list \<times> world)" where
  "process_sections pf ev cfg [] s = Inr s"
| "process_sections pf ev cfg (period # periods) s =
     (case process_section pf ev cfg period s of
        Inl e \<Rightarrow> Inl e
      | Inr s1 \<Rightarrow> process_sections pf ev cfg periods s1)"

text \<open>\<open>parse_all_decisions\<close>: the collected records and the state at the end of the run.\<close>

definition parse_all_decisions ::
  "platform \<Rightarrow> env \<Rightarrow> run_config \<Rightarrow> string \<Rightarrow> world \<Rightarrow> exn + (CourtDecision list \<times> world)" where
  "parse_all_decisions pf ev cfg section_name w =
     (case sections_to_process section_name of
        Inl e \<Rightarrow> Inl e
      | Inr periods \<Rightarrow> process_sections pf ev cfg periods ([], w))"

subsection \<open>What a step leaves untouched\<close>

text \<open>The files and the two page counters are the same in both states.\<close>

definition untouched :: "world \<Rightarrow> world \<Rightarrow> bool" where
  "untouched w w' =
     (metadata_files w' = metadata_files w \<and> text_files w' = text_files w \<and>
      pages_processed w' = pages_processed w \<and> decisions_found w' = decisions_found w)"

text \<open>A record without text paths and with the success flag false.\<close>

definition unpatched :: "CourtDecision \<Rightarrow> bool" where
  "unpatched d =
     (text_file_path d = None \<and> text_file_relative_path d = None \<and>
      text_extraction_success d = False)"


subsection \<open>Sample runs\<close>

text \<open>The defaults of \<open>parse_all_decisions\<close> with the base delay 0.3 of \<open>main\<close>.\<close>

definition cfg_default :: run_config where
  "cfg_default =
     \<lparr>delay = 3 / 10, max_pages = None, download_pdfs = True, start_page = 0,
      end_page = None, overwrite_files = False\<rparr>"

text \<open>A plain 200 response.\<close>

definition response_200 :: response where
  "response_200 =
     \<lparr>status_code = 200, hdr_Retry_After = Falsy,
      hdr_X_RateLimit_Remaining = Falsy, hdr_X_Rate_Limit_Remaining = Falsy\<rparr>"

text \<open>A well-formed entry of the new schema.\<close>

definition new_entry :: json where
  "new_entry =
     JObj [(''id'', JStr ''abcdef123456''), (''case_number'', JStr ''4-1001-2301/1''),
           (''court_names'', JObj [(''uz'', JStr ''sud''), (''ru'', JStr ''sud'')]),
           (''hearing_date'', JStr ''2024-05-01''), (''result'', JStr ''ok''),
           (''instance'', JStr ''FIRST''),
           (''pdf'', JObj [(''id'', JStr ''p1''), (''name'', JStr ''a.pdf''), (''size'', JInt 10)])]"

text \<open>A one-page section with one entry, and a page without entries.\<close>

definition listing_one_entry :: json where
  "listing_one_entry =
     JObj [(''content'', JArr [new_entry]), (''totalPages'', JInt 1), (''totalElements'', JInt 1)]"


text \<open>One task that returns a text, whose text file is written.\<close>

definition batch_one_ok :: batch_env where
  "batch_one_ok =
     \<lparr>completion_order = [0],
      future_result = (\<lambda>i. Inr (Some ''text of the decision'')),
      text_write_ok = (\<lambda>i. True),
      workers_rate_limit = (\<lambda>rl. rl), workers_errors = 0\<rparr>"

text \<open>Surroundings in which every request is answered by the same listing.\<close>

definition env_serving :: "json \<Rightarrow> env" where
  "env_serving listing =
     \<lparr>net = (\<lambda>n. Http_Response response_200 (Some listing)), clock = (\<lambda>n. real n),
      batch_of = (\<lambda>f. batch_one_ok), metadata_write_ok = (\<lambda>f. True)\<rparr>"




text \<open>A state in which the metadata file of page 0 of the new section exists.\<close>

definition world_with_page_0 :: world where
  "world_with_page_0 =
     world_init\<lparr>metadata_files := [''page_new_0000.json'' \<mapsto> [sample_decision 0]]\<rparr>"



text \<open>The sample runs: each is a call of \<open>parse_all_decisions\<close> for the new section.\<close>

definition run_one_entry :: "exn + (CourtDecision list \<times> world)" where
  "run_one_entry =
     parse_all_decisions platform_tashkent (env_serving listing_one_entry) cfg_default
       ''new'' world_init"

definition run_existing_page_0 :: "exn + (CourtDecision list \<times> world)" where
  "run_existing_page_0 =
     parse_all_decisions platform_tashkent (env_serving listing_one_entry) cfg_default
       ''new'' world_with_page_0"



text \<open>The batch of one record whose text file cannot be written.\<close>

definition batch_run_write_fails :: "exn + (CourtDecision list \<times> world)" where
  "batch_run_write_fails =
     download_pdfs_batch platform_tashkent batch_write_fails [sample_decision 0] world_init"


section \<open>Properties of the rate controller\<close>

lemma check_remaining_bounds:
  "delay_in_bounds rl \<Longrightarrow> delay_in_bounds (check_remaining rl r)"
  by (auto simp: check_remaining_def delay_in_bounds_def min_delay_def max_delay_def
      split: header.splits)

lemma check_rate_limits_bounds:
  assumes "delay_in_bounds rl"
  shows "delay_in_bounds (snd (check_rate_limits rl r))"
proof -
  have decay: "delay_in_bounds (rl\<lparr>consecutive_errors := 0,
      current_delay := max (current_delay rl * (9 / 10)) min_delay\<rparr>)"
    using assms by (auto simp: delay_in_bounds_def min_delay_def max_delay_def)
  have grow: "\<And>k. delay_in_bounds (rl\<lparr>consecutive_errors := k,
      current_delay := min (current_delay rl * (3 / 2)) max_delay\<rparr>)"
    using assms by (auto simp: delay_in_bounds_def min_delay_def max_delay_def)
  have lim: "\<And>k n. delay_in_bounds (rl\<lparr>is_limited := True, consecutive_errors := k,
      retry_after := Some n\<rparr>)"
    using assms by (simp add: delay_in_bounds_def)
  have glim: "\<And>k. delay_in_bounds (rl\<lparr>is_limited := True, consecutive_errors := k,
      current_delay := min (current_delay rl * (3 / 2)) max_delay\<rparr>)"
    using assms by (auto simp: delay_in_bounds_def min_delay_def max_delay_def)
  show ?thesis
    using assms decay grow lim glim
    by (simp add: check_rate_limits_def Let_def backoff_factor_def check_remaining_bounds
        split: header.splits)
qed

lemma on_request_exception_bounds:
  "delay_in_bounds rl \<Longrightarrow> delay_in_bounds (on_request_exception rl)"
  by (auto simp: on_request_exception_def delay_in_bounds_def min_delay_def max_delay_def)

lemma observe_bounds: "delay_in_bounds rl \<Longrightarrow> delay_in_bounds (observe rl out)"
  by (cases out) (simp_all add: check_rate_limits_bounds on_request_exception_bounds)

lemma observe_all_bounds: "delay_in_bounds rl \<Longrightarrow> delay_in_bounds (observe_all rl os)"
  unfolding observe_all_def
  by (induction os arbitrary: rl) (simp_all add: observe_bounds)

lemma init_bounds: "delay_in_bounds RateLimitInfo_init"
  by (simp add: delay_in_bounds_def RateLimitInfo_init_def min_delay_def max_delay_def)

lemma adaptive_delay_keeps_current_delay:
  "adaptive_delay base now rl = Inr (d, rl') \<Longrightarrow> current_delay rl' = current_delay rl"
  by (auto simp: adaptive_delay_def sleep_def truthy_opt_int_def split: if_splits)

text \<open>
  C1. Starting from the initial state, after every sequence of observed outcomes (any
  status code with any headers, or a transport failure) the current delay lies between
  the minimum delay 0.1 and the maximum delay 10. The sequence is arbitrary, so the
  bound holds after each observation of a run.
\<close>

theorem C1_current_delay_within_bounds:
  "min_delay \<le> current_delay (observe_all RateLimitInfo_init os) \<and>
   current_delay (observe_all RateLimitInfo_init os) \<le> max_delay \<and>
   min_delay = 1 / 10 \<and> max_delay = 10"
  using observe_all_bounds [OF init_bounds, of os]
  by (simp add: delay_in_bounds_def min_delay_def max_delay_def)

subsection \<open>Consumption of a stored retry-after value\<close>

text \<open>
  A stored positive value is consumed by the next call of \<open>_adaptive_delay\<close>: the call
  sleeps the value plus the margin 0.5 and clears the value and the flag.
\<close>

lemma adaptive_delay_consumes_positive:
  assumes "retry_after rl = Some n" and "0 < n"
  shows "adaptive_delay base now rl =
           Inr (real_of_int n + 1 / 2,
                rl\<lparr>retry_after := None, is_limited := False, last_request_time := Some now\<rparr>)"
  using assms by (simp add: adaptive_delay_def truthy_opt_int_def sleep_def)

text \<open>With no value stored the call sleeps the current delay after errors, the base delay otherwise.\<close>

lemma adaptive_delay_unset:
  assumes "retry_after rl = None" and "0 \<le> base" and "0 \<le> current_delay rl"
  shows "adaptive_delay base now rl =
           Inr (if consecutive_errors rl > 0 then current_delay rl else base,
                rl\<lparr>last_request_time := Some now\<rparr>)"
  using assms by (simp add: adaptive_delay_def truthy_opt_int_def sleep_def)

text \<open>A stored negative value makes \<open>time.sleep\<close> raise; nothing is cleared.\<close>

lemma adaptive_delay_negative_raises:
  assumes "retry_after rl = Some n" and "n < 0"
  shows "adaptive_delay base now rl = Inl ValueError"
proof -
  have "real_of_int n + 1 / 2 < 0"
    using assms(2) by linarith
  then show ?thesis
    using assms by (simp add: adaptive_delay_def truthy_opt_int_def sleep_def)
qed

text \<open>
  C7. A stored retry-after value is to be returned, plus the margin, by the very next
  delay computation, which also clears the value and the limited flag. At the stored
  value 0 (a 429 response with \<open>Retry-After: 0\<close> observed in the initial state) the
  truthiness test of \<open>_adaptive_delay\<close> takes the value for unset: with base delay 0.3
  the call sleeps the current delay 1.5 instead of 0.5, and the value and the flag stay
  as they were.
\<close>

theorem C7_retry_after_zero_not_consumed:
  "snd (check_rate_limits RateLimitInfo_init response_429_retry_after_0) =
     \<lparr>is_limited = True, retry_after = Some 0, current_delay = 3 / 2,
      consecutive_errors = 1, last_request_time = None\<rparr> \<and>
   adaptive_delay (3 / 10) 0
       (snd (check_rate_limits RateLimitInfo_init response_429_retry_after_0)) =
     Inr (3 / 2,
          \<lparr>is_limited = True, retry_after = Some 0, current_delay = 3 / 2,
           consecutive_errors = 1, last_request_time = Some 0\<rparr>)"
  by (simp add: check_rate_limits_def response_429_retry_after_0_def RateLimitInfo_init_def
      adaptive_delay_def truthy_opt_int_def sleep_def)

subsection \<open>The low-quota floor\<close>

text \<open>
  C8, as stated, fails: the 429 branch returns before the quota headers are read. In
  the initial state a 429 response with a parseable retry-after value and a remaining
  quota of 3 leaves the current delay at 1.5, below 2.
\<close>

theorem C8_counterexample_429_skips_quota_header:
  "current_delay (snd (check_rate_limits RateLimitInfo_init response_429_low_quota)) = 3 / 2 \<and>
   \<not> 2 \<le> current_delay (snd (check_rate_limits RateLimitInfo_init response_429_low_quota))"
  by (simp add: check_rate_limits_def response_429_low_quota_def RateLimitInfo_init_def)

text \<open>
  C8, amended. For every observed response whose status is none of 429, 502, 503 and
  504, if the remaining-quota header that the code reads (\<open>X-RateLimit-Remaining\<close> when
  it is non-empty, \<open>X-Rate-Limit-Remaining\<close> otherwise) parses to an integer below 10,
  the current delay after the observation is at least 2.
\<close>

theorem C8_low_quota_floor:
  assumes "status_code r \<noteq> 429" and "status_code r \<noteq> 502"
    and "status_code r \<noteq> 503" and "status_code r \<noteq> 504"
    and "header_or (hdr_X_RateLimit_Remaining r) (hdr_X_Rate_Limit_Remaining r) = IntVal n"
    and "n < 10"
  shows "2 \<le> current_delay (snd (check_rate_limits rl r))"
  using assms by (simp add: check_rate_limits_def check_remaining_def)

text \<open>C8, amended, at a 200 response with a remaining quota of 3, in the initial state.\<close>

theorem C8_low_quota_floor_witness:
  "status_code response_200_low_quota \<noteq> 429 \<and>
   header_or (hdr_X_RateLimit_Remaining response_200_low_quota)
     (hdr_X_Rate_Limit_Remaining response_200_low_quota) = IntVal 3 \<and>
   (3::int) < 10 \<and>
   2 \<le> current_delay (snd (check_rate_limits RateLimitInfo_init response_200_low_quota))"
proof -
  have s: "status_code response_200_low_quota = 200"
    by (simp add: response_200_low_quota_def)
  have h: "header_or (hdr_X_RateLimit_Remaining response_200_low_quota)
     (hdr_X_Rate_Limit_Remaining response_200_low_quota) = IntVal 3"
    by (simp add: response_200_low_quota_def)
  have "2 \<le> current_delay (snd (check_rate_limits RateLimitInfo_init response_200_low_quota))"
    using C8_low_quota_floor [of response_200_low_quota 3 RateLimitInfo_init] s h by simp
  then show ?thesis using s h by simp
qed

section \<open>Properties of the normalizer\<close>



text \<open>Every record that the normalizer returns has no text paths and no extracted text.\<close>

lemma parse_decision_fresh:
  assumes "parse_decision_from_json pf e period = Some r"
  shows "text_file_path r = None \<and> text_file_relative_path r = None \<and>
         text_extraction_success r = False \<and> extracted_text r = None"
  using assms
  unfolding parse_decision_from_json_def parse_decision_old_def parse_decision_new_def
  by (auto simp: bind_eq_Some_conv split: if_splits)





section \<open>Properties of the attachment batch\<close>

text \<open>The record that the loop body leaves does not depend on the state of the world.\<close>

lemma on_completed_fst_indep:
  "fst (on_completed pf res ok d w) = fst (on_completed pf res ok d w0)"
  by (auto simp: on_completed_def save_decision_with_text_def Let_def
      split: sum.splits option.splits if_splits prod.splits)

lemma on_completed_failed:
  "task_failed res \<Longrightarrow>
   fst (on_completed pf res ok d w) = d\<lparr>text_extraction_success := False\<rparr>"
  by (auto simp: on_completed_def task_failed_def split: sum.splits)

lemma create_safe_filename_well_typed:
  "well_typed d \<Longrightarrow> \<exists>n. create_safe_filename pf d = Inr n"
  by (auto simp: well_typed_def create_safe_filename_def Let_def split: json.splits)

lemma safe_filenames_well_typed:
  "list_all well_typed ds \<Longrightarrow> \<exists>ns. safe_filenames pf ds = Inr ns"
  by (induction ds) (auto dest: create_safe_filename_well_typed [of _ pf])

text \<open>
  When every future is yielded once, each record of the batch ends as the loop body
  leaves it for its own future, whatever the order of completion.
\<close>

lemma foldl_process_future:
  assumes "distinct order" and "\<forall>i\<in>set order. i < length ds"
  shows "length (fst (foldl (process_future pf benv) (ds, w) order)) = length ds \<and>
    (\<forall>j<length ds. fst (foldl (process_future pf benv) (ds, w) order) ! j =
       (if j \<in> set order
        then fst (on_completed pf (future_result benv j) (text_write_ok benv j) (ds ! j) w0)
        else ds ! j))"
  using assms
proof (induction order arbitrary: ds w)
  case Nil
  then show ?case by simp
next
  case (Cons i rest)
  obtain d w1 where ow: "on_completed pf (future_result benv i) (text_write_ok benv i) (ds ! i) w = (d, w1)"
    by (cases "on_completed pf (future_result benv i) (text_write_ok benv i) (ds ! i) w")
  then have step: "process_future pf benv (ds, w) i = (ds[i := d], w1)"
    by (simp add: process_future_def)
  have d: "d = fst (on_completed pf (future_result benv i) (text_write_ok benv i) (ds ! i) w0)"
    using ow on_completed_fst_indep [of pf "future_result benv i" "text_write_ok benv i" "ds ! i" w w0]
    by simp
  have i: "i < length ds" "i \<notin> set rest" using Cons.prems by auto
  have IH: "length (fst (foldl (process_future pf benv) (ds[i := d], w1) rest)) = length (ds[i := d]) \<and>
    (\<forall>j<length (ds[i := d]). fst (foldl (process_future pf benv) (ds[i := d], w1) rest) ! j =
       (if j \<in> set rest
        then fst (on_completed pf (future_result benv j) (text_write_ok benv j) (ds[i := d] ! j) w0)
        else ds[i := d] ! j))"
    using Cons.IH [of "ds[i := d]" w1] Cons.prems by auto
  show ?case
    using IH i d by (auto simp: step nth_list_update)
qed

lemma batch_result:
  assumes "download_pdfs_batch pf benv ds w = Inr (ds', w')"
    and "distinct (completion_order benv)"
    and "set (completion_order benv) = set [0..<length ds]"
  shows "length ds' = length ds \<and>
    (\<forall>j<length ds. ds' ! j =
        fst (on_completed pf (future_result benv j) (text_write_ok benv j) (ds ! j) w0))"
proof -
  obtain names where n: "safe_filenames pf ds = Inr names"
    using assms(1) by (auto simp: download_pdfs_batch_def split: sum.splits)
  let ?s = "foldl (process_future pf benv) (ds, w\<lparr>trace := trace w @ map TaskSubmitted names\<rparr>)
              (completion_order benv)"
  have "ds' = fst ?s"
    using assms(1) n by (auto simp: download_pdfs_batch_def split: prod.splits)
  moreover have "\<forall>i\<in>set (completion_order benv). i < length ds"
    using assms(3) by simp
  ultimately show ?thesis
    using foldl_process_future [OF assms(2), of ds pf benv _ w0] assms(3) by auto
qed

lemma batch_returns:
  assumes "list_all well_typed ds"
  shows "\<exists>ds' w'. download_pdfs_batch pf benv ds w = Inr (ds', w')"
  using safe_filenames_well_typed [OF assms, of pf]
  by (auto simp: download_pdfs_batch_def split: prod.splits)


lemma on_completed_paths:
  assumes "no_paths d"
  shows "(\<not> text_extraction_success (fst (on_completed pf res ok d w)) \<longrightarrow>
            no_paths (fst (on_completed pf res ok d w))) \<and>
         (text_extraction_success (fst (on_completed pf res ok d w)) \<and> ok \<longrightarrow>
            text_file_path (fst (on_completed pf res ok d w)) \<noteq> None \<and>
            text_file_relative_path (fst (on_completed pf res ok d w)) \<noteq> None) \<and>
         (text_extraction_success (fst (on_completed pf res ok d w)) \<and> \<not> ok \<longrightarrow>
            no_paths (fst (on_completed pf res ok d w)))"
  using assms
  by (auto simp: on_completed_def save_decision_with_text_def no_paths_def Let_def
      split: sum.splits if_splits)



text \<open>
  C2, amended. For every record that enters the batch without text paths (as every
  record of the normalizer does), after the batch: a false success flag implies that
  both path fields are null; a true success flag implies that both are non-null when
  the text file was written, and that both are null when writing the text file failed
  after the extraction succeeded (the flag then stays true).
\<close>

theorem C2_paths_follow_flag:
  assumes "download_pdfs_batch pf benv ds w = Inr (ds', w')"
    and "distinct (completion_order benv)"
    and "set (completion_order benv) = set [0..<length ds]"
    and "j < length ds"
    and "no_paths (ds ! j)"
  shows "(\<not> text_extraction_success (ds' ! j) \<longrightarrow>
            text_file_path (ds' ! j) = None \<and> text_file_relative_path (ds' ! j) = None) \<and>
         (text_extraction_success (ds' ! j) \<and> text_write_ok benv j \<longrightarrow>
            text_file_path (ds' ! j) \<noteq> None \<and> text_file_relative_path (ds' ! j) \<noteq> None) \<and>
         (text_extraction_success (ds' ! j) \<and> \<not> text_write_ok benv j \<longrightarrow>
            text_file_path (ds' ! j) = None \<and> text_file_relative_path (ds' ! j) = None)"
proof -
  define d where
    "d = fst (on_completed pf (future_result benv j) (text_write_ok benv j) (ds ! j) w)"
  have eq: "ds' ! j = d"
    using batch_result [OF assms(1-3), of w] assms(4) by (auto simp: d_def)
  have "(\<not> text_extraction_success d \<longrightarrow> no_paths d) \<and>
        (text_extraction_success d \<and> text_write_ok benv j \<longrightarrow>
           text_file_path d \<noteq> None \<and> text_file_relative_path d \<noteq> None) \<and>
        (text_extraction_success d \<and> \<not> text_write_ok benv j \<longrightarrow> no_paths d)"
    unfolding d_def by (rule on_completed_paths [OF assms(5)])
  then show ?thesis
    unfolding eq no_paths_def by blast
qed

lemma sample_well_typed: "well_typed (sample_decision i)"
  by (simp add: well_typed_def sample_decision_def)

lemma sample_no_paths: "no_paths (sample_decision i)"
  by (simp add: no_paths_def sample_decision_def)

text \<open>
  C2, as stated, fails when the text file cannot be written: the flag was set before
  \<open>save_decision_with_text\<close> ran and the handler there only resets the paths. The record
  ends with a true success flag and two null paths.
\<close>

theorem C2_counterexample_write_failure:
  "\<not> isl batch_run_write_fails \<and>
   text_extraction_success (fst (projr batch_run_write_fails) ! 0) \<and>
   text_file_path (fst (projr batch_run_write_fails) ! 0) = None \<and>
   text_file_relative_path (fst (projr batch_run_write_fails) ! 0) = None"
  by (simp add: batch_run_write_fails_def
      download_pdfs_batch_def batch_write_fails_def sample_decision_def
      create_safe_filename_def process_future_def on_completed_def save_decision_with_text_def
      truthy_opt_str_def Let_def)


lemma on_completed_success_flag:
  assumes "res = Inr (Some t)" and "t \<noteq> []" and "well_typed d"
  shows "text_extraction_success (fst (on_completed pf res ok d w))"
proof -
  have "well_typed (d\<lparr>extracted_text := Some t, text_extraction_success := True\<rparr>)"
    using assms(3) by (simp add: well_typed_def)
  then obtain n where
    "create_safe_filename pf (d\<lparr>extracted_text := Some t, text_extraction_success := True\<rparr>) = Inr n"
    using create_safe_filename_well_typed by blast
  then show ?thesis
    using assms(1,2)
    by (simp add: on_completed_def save_decision_with_text_def truthy_opt_str_def Let_def)
qed


text \<open>
  C2, amended, at the batch of three records: one failed task, one text saved, one text
  that could not be saved.
\<close>

theorem C2_paths_follow_flag_witness:
  "\<exists>ds' w'.
     download_pdfs_batch platform_tashkent batch_three (map sample_decision [0..<3])
       world_init = Inr (ds', w') \<and>
     distinct (completion_order batch_three) \<and>
     set (completion_order batch_three) = set [0..<length (map sample_decision [0..<3])] \<and>
     no_paths (map sample_decision [0..<3] ! 0) \<and>
     no_paths (map sample_decision [0..<3] ! 1) \<and>
     no_paths (map sample_decision [0..<3] ! 2) \<and>
     \<not> text_extraction_success (ds' ! 0) \<and>
     text_file_path (ds' ! 0) = None \<and> text_file_relative_path (ds' ! 0) = None \<and>
     text_extraction_success (ds' ! 1) \<and> text_write_ok batch_three 1 \<and>
     text_file_path (ds' ! 1) \<noteq> None \<and> text_file_relative_path (ds' ! 1) \<noteq> None \<and>
     text_extraction_success (ds' ! 2) \<and> \<not> text_write_ok batch_three 2 \<and>
     text_file_path (ds' ! 2) = None \<and> text_file_relative_path (ds' ! 2) = None"
proof -
  let ?ds = "map sample_decision [0..<3]"
  have "list_all well_typed ?ds"
    by (simp add: list_all_iff sample_well_typed)
  then obtain ds' w' where
    run: "download_pdfs_batch platform_tashkent batch_three ?ds world_init = Inr (ds', w')"
    using batch_returns by blast
  have d: "distinct (completion_order batch_three)"
    by (simp add: batch_three_def)
  have s: "set (completion_order batch_three) = set [0..<length ?ds]"
    by (auto simp: batch_three_def)
  have n: "no_paths (?ds ! 0)" "no_paths (?ds ! 1)" "no_paths (?ds ! 2)"
    by (simp_all add: sample_no_paths)
  have r: "\<forall>k<length ?ds. ds' ! k =
      fst (on_completed platform_tashkent (future_result batch_three k)
             (text_write_ok batch_three k) (?ds ! k) world_init)"
    using batch_result [OF run d s] by blast
  have f0: "\<not> text_extraction_success (ds' ! 0)"
    using r by (simp add: batch_three_def on_completed_failed task_failed_def truthy_opt_str_def)
  have f1: "text_extraction_success (ds' ! 1)"
    using r on_completed_success_flag [of "future_result batch_three 1" "''text of the decision''"]
    by (simp add: batch_three_def sample_well_typed)
  have f2: "text_extraction_success (ds' ! 2)"
    using r on_completed_success_flag [of "future_result batch_three 2" "''text of the decision''"]
    by (simp add: batch_three_def sample_well_typed)
  have ok: "text_write_ok batch_three 1" "\<not> text_write_ok batch_three 2"
    by (simp_all add: batch_three_def)
  have l: "(0::nat) < length ?ds" "(1::nat) < length ?ds" "(2::nat) < length ?ds"
    by simp_all
  note c0 = C2_paths_follow_flag [OF run d s l(1) n(1)]
  note c1 = C2_paths_follow_flag [OF run d s l(2) n(2)]
  note c2 = C2_paths_follow_flag [OF run d s l(3) n(3)]
  show ?thesis
    using run d s n f0 f1 f2 ok c0 c1 c2 by blast
qed

section \<open>Properties of the orchestrator\<close>

subsection \<open>What the catalogue client changes\<close>

text \<open>
  A listing request changes neither the files nor the page counters, and it adds to the
  trace one \<open>HttpGet\<close> event for each request sent.
\<close>

lemma adaptive_delay_w_frame:
  "adaptive_delay_w ev cfg w = Inr w1 \<Longrightarrow>
   untouched w w1 \<and> trace w1 = trace w \<and> http_requests w1 = http_requests w"
  by (auto simp: adaptive_delay_w_def untouched_def split: sum.splits)

lemma session_get_frame:
  "session_get ev period page w = (out, w1) \<Longrightarrow>
   untouched w w1 \<and> trace w1 = trace w @ [HttpGet period page] \<and>
   http_requests w1 = Suc (http_requests w)"
  by (auto simp: session_get_def untouched_def)

lemma request_failed_frame:
  "untouched w (request_failed w) \<and> trace (request_failed w) = trace w \<and>
   http_requests (request_failed w) = http_requests w"
  by (simp add: request_failed_def untouched_def)

lemma decode_response_frame:
  "decode_response pf period r body w = Inr (res, w1) \<Longrightarrow>
   untouched w w1 \<and> trace w1 = trace w \<and> http_requests w1 = http_requests w"
  by (auto simp: decode_response_def request_failed_frame untouched_def request_failed_def
      split: if_splits option.splits sum.splits)

lemma untouched_trans: "untouched a b \<Longrightarrow> untouched b c \<Longrightarrow> untouched a c"
  by (simp add: untouched_def)

lemma untouched_rate_limit: "untouched w (w\<lparr>rate_limit := rl\<rparr>)"
  by (simp add: untouched_def)

lemma get_decisions_list_frame:
  assumes "get_decisions_list pf ev cfg period page w = Inr (res, w')"
  shows "untouched w w' \<and>
         trace w' = trace w @ replicate (http_requests w' - http_requests w) (HttpGet period page)"
proof -
  obtain w1 where a1: "adaptive_delay_w ev cfg w = Inr w1"
    using assms by (auto simp: get_decisions_list_def split: sum.splits)
  obtain out w2 where s1: "session_get ev period page w1 = (out, w2)"
    by (cases "session_get ev period page w1")
  note f1 = adaptive_delay_w_frame [OF a1]
  note f2 = session_get_frame [OF s1]
  have base: "untouched w w2" "trace w2 = trace w @ [HttpGet period page]"
    "http_requests w2 = Suc (http_requests w)"
    using f1 f2 by (auto intro: untouched_trans)
  show ?thesis
  proof (cases out)
    case Transport_Error
    then have "w' = request_failed w2"
      using assms a1 s1 by (simp add: get_decisions_list_def)
    then show ?thesis
      using base by (simp add: request_failed_def untouched_def)
  next
    case (Http_Response r body)
    obtain ok rl where c: "check_rate_limits (rate_limit w2) r = (ok, rl)"
      by (cases "check_rate_limits (rate_limit w2) r")
    show ?thesis
    proof (cases ok)
      case True
      then have "decode_response pf period r body (w2\<lparr>rate_limit := rl\<rparr>) = Inr (res, w')"
        using assms a1 s1 Http_Response c by (simp add: get_decisions_list_def)
      from decode_response_frame [OF this] show ?thesis
        using base by (simp add: untouched_def)
    next
      case False
      then obtain w3 where a2: "adaptive_delay_w ev cfg (w2\<lparr>rate_limit := rl\<rparr>) = Inr w3"
        using assms a1 s1 Http_Response c
        by (auto simp: get_decisions_list_def split: sum.splits)
      obtain out2 w4 where s2: "session_get ev period page w3 = (out2, w4)"
        by (cases "session_get ev period page w3")
      note f3 = adaptive_delay_w_frame [OF a2]
      note f4 = session_get_frame [OF s2]
      have base2: "untouched w w4"
        "trace w4 = trace w @ [HttpGet period page, HttpGet period page]"
        "http_requests w4 = Suc (Suc (http_requests w))"
        using base f3 f4 by (auto simp: untouched_def)
      show ?thesis
      proof (cases out2)
        case Transport_Error
        then have "w' = request_failed w4"
          using assms a1 s1 Http_Response c False a2 s2 by (simp add: get_decisions_list_def)
        then show ?thesis
          using base2 by (simp add: request_failed_def untouched_def numeral_2_eq_2)
      next
        case (Http_Response r2 body2)
        then have "decode_response pf period r2 body2 w4 = Inr (res, w')"
          using assms a1 s1 \<open>out = Http_Response r body\<close> c False a2 s2
          by (simp add: get_decisions_list_def)
        from decode_response_frame [OF this] show ?thesis
          using base2 by (simp add: untouched_def numeral_2_eq_2)
      qed
    qed
  qed
qed

lemma fetch_page_frame:
  assumes "fetch_page pf ev cfg period first_page_data page w = Inr (res, w')"
  shows "untouched w w' \<and>
         trace w' = trace w @ replicate (http_requests w' - http_requests w) (HttpGet period page)"
proof (cases "page = start_page cfg \<and> start_page cfg = 0")
  case True
  then have "w' = w" using assms by (simp add: fetch_page_def)
  then show ?thesis by (simp add: untouched_def)
next
  case False
  then have "get_decisions_list pf ev cfg period page w = Inr (res, w')"
    using assms by (auto simp: fetch_page_def)
  then show ?thesis by (rule get_decisions_list_frame)
qed

lemma between_pages_frame:
  "between_pages ev cfg aep page w = Inr w' \<Longrightarrow>
   untouched w w' \<and> trace w' = trace w \<and> http_requests w' = http_requests w"
  by (auto simp: between_pages_def sleep_def untouched_def dest: adaptive_delay_w_frame
      split: if_splits)

text \<open>
  The bounds of the current delay hold through a whole listing request, with its
  delays, its one or two exchanges and the handler of a failed request.
\<close>

lemma adaptive_delay_w_bounds:
  "adaptive_delay_w ev cfg w = Inr w1 \<Longrightarrow> delay_in_bounds (rate_limit w) \<Longrightarrow>
   delay_in_bounds (rate_limit w1)"
  by (auto simp: adaptive_delay_w_def delay_in_bounds_def
      dest: adaptive_delay_keeps_current_delay split: sum.splits)

lemma decode_response_bounds:
  "decode_response pf period r body w = Inr (res, w1) \<Longrightarrow> delay_in_bounds (rate_limit w) \<Longrightarrow>
   delay_in_bounds (rate_limit w1)"
  by (auto simp: decode_response_def request_failed_def on_request_exception_bounds
      split: if_splits option.splits sum.splits)

lemma get_decisions_list_bounds:
  assumes "get_decisions_list pf ev cfg period page w = Inr (res, w')"
    and "delay_in_bounds (rate_limit w)"
  shows "delay_in_bounds (rate_limit w')"
proof -
  obtain w1 where a1: "adaptive_delay_w ev cfg w = Inr w1"
    using assms(1) by (auto simp: get_decisions_list_def split: sum.splits)
  have b1: "delay_in_bounds (rate_limit w1)"
    using adaptive_delay_w_bounds [OF a1 assms(2)] .
  obtain out w2 where s1: "session_get ev period page w1 = (out, w2)"
    by (cases "session_get ev period page w1")
  then have b2: "delay_in_bounds (rate_limit w2)"
    using b1 by (auto simp: session_get_def)
  show ?thesis
  proof (cases out)
    case Transport_Error
    then have "w' = request_failed w2"
      using assms(1) a1 s1 by (simp add: get_decisions_list_def)
    then show ?thesis
      using b2 by (simp add: request_failed_def on_request_exception_bounds)
  next
    case (Http_Response r body)
    obtain ok rl where c: "check_rate_limits (rate_limit w2) r = (ok, rl)"
      by (cases "check_rate_limits (rate_limit w2) r")
    have b3: "delay_in_bounds rl"
      using check_rate_limits_bounds [OF b2, of r] c by simp
    show ?thesis
    proof (cases ok)
      case True
      then have "decode_response pf period r body (w2\<lparr>rate_limit := rl\<rparr>) = Inr (res, w')"
        using assms(1) a1 s1 Http_Response c by (simp add: get_decisions_list_def)
      from decode_response_bounds [OF this] show ?thesis
        using b3 by simp
    next
      case False
      then obtain w3 where a2: "adaptive_delay_w ev cfg (w2\<lparr>rate_limit := rl\<rparr>) = Inr w3"
        using assms(1) a1 s1 Http_Response c
        by (auto simp: get_decisions_list_def split: sum.splits)
      have b4: "delay_in_bounds (rate_limit w3)"
        using adaptive_delay_w_bounds [OF a2] b3 by simp
      obtain out2 w4 where s2: "session_get ev period page w3 = (out2, w4)"
        by (cases "session_get ev period page w3")
      then have b5: "delay_in_bounds (rate_limit w4)"
        using b4 by (auto simp: session_get_def)
      show ?thesis
      proof (cases out2)
        case Transport_Error
        then have "w' = request_failed w4"
          using assms(1) a1 s1 Http_Response c False a2 s2 by (simp add: get_decisions_list_def)
        then show ?thesis
          using b5 by (simp add: request_failed_def on_request_exception_bounds)
      next
        case (Http_Response r2 body2)
        then have "decode_response pf period r2 body2 w4 = Inr (res, w')"
          using assms(1) a1 s1 \<open>out = Http_Response r body\<close> c False a2 s2
          by (simp add: get_decisions_list_def)
        from decode_response_bounds [OF this b5] show ?thesis .
      qed
    qed
  qed
qed

subsection \<open>What the attachment batch changes\<close>

text \<open>
  The batch changes neither the metadata files nor the page counters; it adds to the
  trace the submitted tasks and then the text files written.
\<close>

lemma on_completed_frame:
  assumes "on_completed pf res ok d w = (d', w')"
  shows "metadata_files w' = metadata_files w \<and> pages_processed w' = pages_processed w \<and>
         decisions_found w' = decisions_found w \<and>
         (\<exists>saves. trace w' = trace w @ map TextSaved saves)"
proof -
  have e: "\<exists>saves. trace w = trace w @ map TextSaved saves"
    by (rule exI [of _ "[]"]) simp
  have s: "\<exists>saves. trace w @ [TextSaved n] = trace w @ map TextSaved saves" for n
    by (rule exI [of _ "[n]"]) simp
  show ?thesis
    using assms e s
    by (auto simp: on_completed_def save_decision_with_text_def Let_def
        split: sum.splits if_splits)
qed

lemma foldl_process_future_frame:
  assumes "foldl (process_future pf benv) (ds, w) order = (ds', w')"
  shows "metadata_files w' = metadata_files w \<and> pages_processed w' = pages_processed w \<and>
         decisions_found w' = decisions_found w \<and>
         (\<exists>saves. trace w' = trace w @ map TextSaved saves)"
  using assms
proof (induction order arbitrary: ds w)
  case Nil
  have "\<exists>saves. trace w = trace w @ map TextSaved saves"
    by (rule exI [of _ "[]"]) simp
  with Nil show ?case by simp
next
  case (Cons i rest)
  obtain d w1 where ow:
    "on_completed pf (future_result benv i) (text_write_ok benv i) (ds ! i) w = (d, w1)"
    by (cases "on_completed pf (future_result benv i) (text_write_ok benv i) (ds ! i) w")
  then have step: "process_future pf benv (ds, w) i = (ds[i := d], w1)"
    by (simp add: process_future_def)
  from on_completed_frame [OF ow] obtain s1 where
    f1: "metadata_files w1 = metadata_files w" "pages_processed w1 = pages_processed w"
        "decisions_found w1 = decisions_found w" "trace w1 = trace w @ map TextSaved s1"
    by blast
  have "foldl (process_future pf benv) (ds[i := d], w1) rest = (ds', w')"
    using Cons.prems step by simp
  from Cons.IH [OF this] obtain s2 where
    f2: "metadata_files w' = metadata_files w1" "pages_processed w' = pages_processed w1"
        "decisions_found w' = decisions_found w1" "trace w' = trace w1 @ map TextSaved s2"
    by blast
  have "trace w' = trace w @ map TextSaved (s1 @ s2)"
    using f1 f2 by simp
  then show ?case
    using f1 f2 by (metis (no_types))
qed

lemma download_pdfs_batch_frame:
  assumes "download_pdfs_batch pf benv ds w = Inr (ds', w')"
  shows "metadata_files w' = metadata_files w \<and> pages_processed w' = pages_processed w \<and>
         decisions_found w' = decisions_found w \<and>
         (\<exists>names saves. safe_filenames pf ds = Inr names \<and>
            trace w' = trace w @ map TaskSubmitted names @ map TextSaved saves)"
proof -
  obtain names where n: "safe_filenames pf ds = Inr names"
    using assms by (auto simp: download_pdfs_batch_def split: sum.splits)
  let ?w0 = "w\<lparr>trace := trace w @ map TaskSubmitted names\<rparr>"
  obtain ds1 w1 where f: "foldl (process_future pf benv) (ds, ?w0) (completion_order benv) = (ds1, w1)"
    by (cases "foldl (process_future pf benv) (ds, ?w0) (completion_order benv)")
  have w': "w' = w1\<lparr>rate_limit := workers_rate_limit benv (rate_limit w1),
                    errors := errors w1 + workers_errors benv\<rparr>"
    using assms n f by (simp add: download_pdfs_batch_def)
  from foldl_process_future_frame [OF f] obtain saves where
    "metadata_files w1 = metadata_files ?w0" "pages_processed w1 = pages_processed ?w0"
    "decisions_found w1 = decisions_found ?w0" "trace w1 = trace ?w0 @ map TextSaved saves"
    by blast
  then show ?thesis
    using n w' by auto
qed

subsection \<open>One page\<close>

text \<open>The records of a page come from the normalizer: no text paths, the flag false.\<close>

lemma page_records_unpatched: "list_all unpatched (page_records pf period entries)"
proof (induction entries)
  case Nil
  then show ?case by (simp add: page_records_def)
next
  case (Cons e es)
  show ?case
  proof (cases "parse_decision_from_json pf e period")
    case None
    then show ?thesis using Cons by (simp add: page_records_def)
  next
    case (Some r)
    then have "unpatched r"
      using parse_decision_fresh [OF Some] by (simp add: unpatched_def)
    then show ?thesis using Cons Some by (simp add: page_records_def)
  qed
qed

lemma to_dict_unpatched: "unpatched d \<Longrightarrow> unpatched (to_dict d)"
  by (simp add: unpatched_def to_dict_def)


lemma store_page_download:
  assumes "recs \<noteq> []" and "download_pdfs cfg"
    and "store_page pf ev cfg period page recs (all_decisions, w) = Inr (all2, w2)"
  shows "\<exists>names saves. safe_filenames pf recs = Inr names \<and>
           trace w2 = trace w @ [MetadataSaved (page_metadata_file period page)] @
                        map TaskSubmitted names @ map TextSaved saves \<and>
           metadata_files w2 =
             (metadata_files w)(page_metadata_file period page \<mapsto> map to_dict recs) \<and>
           pages_processed w2 = pages_processed w"
proof -
  let ?w0 = "w\<lparr>decisions_found := decisions_found w + int (length recs)\<rparr>"
  obtain w1 where sm: "save_metadata ev recs (period @ ''_'' @ fmt_04d page) ?w0 = Inr w1"
    using assms by (auto simp: store_page_def split: sum.splits)
  then have w1: "trace w1 = trace w @ [MetadataSaved (page_metadata_file period page)]"
      "metadata_files w1 = (metadata_files w)(page_metadata_file period page \<mapsto> map to_dict recs)"
      "pages_processed w1 = pages_processed w"
    by (auto simp: save_metadata_def Let_def page_metadata_file_def split: if_splits)
  obtain ds where b: "download_pdfs_batch pf (batch_of ev (page_metadata_file period page)) recs w1
      = Inr (ds, w2)"
    using assms sm by (auto simp: store_page_def split: sum.splits)
  from download_pdfs_batch_frame [OF b] w1 show ?thesis
    by auto
qed

text \<open>
  C3, amended. For every page that is processed with attachment processing enabled and
  has records: the events of the page are the listing requests, then the writing of the
  page's metadata file, then the submission of the attachment tasks, then the text
  files; so the metadata file is written before any attachment task of the page
  starts. It is not written again: when the page is done (and the orchestrator goes on
  to the next page) the file holds the records as they were serialised before the
  batch, without text paths and with the success flag false. The patches of the batch
  are in the records in memory only.
\<close>

theorem C3_metadata_before_batch_not_rewritten:
  assumes "\<not> skips_page cfg period page w"
    and "fetch_page pf ev cfg period first_page_data page w = Inr (Some page_data, w1)"
    and "truthy page_data"
    and "page_entries page_data = Inr entries"
    and "page_records pf period entries \<noteq> []"
    and "download_pdfs cfg"
    and "process_page pf ev cfg period first_page_data aep page (all_decisions, w) = Inr (all', w')"
  shows "\<exists>names saves.
           safe_filenames pf (page_records pf period entries) = Inr names \<and>
           trace w' =
             trace w @ replicate (http_requests w1 - http_requests w) (HttpGet period page) @
             [MetadataSaved (page_metadata_file period page)] @
             map TaskSubmitted names @ map TextSaved saves \<and>
           metadata_files w' (page_metadata_file period page) =
             Some (map to_dict (page_records pf period entries)) \<and>
           list_all unpatched (map to_dict (page_records pf period entries))"
proof -
  let ?recs = "page_records pf period entries"
  obtain all2 w2 where sp: "store_page pf ev cfg period page ?recs (all_decisions, w1) = Inr (all2, w2)"
    using assms(1-4,7) by (auto simp: process_page_def split: sum.splits)
  obtain w3 where bp: "between_pages ev cfg aep page (w2\<lparr>pages_processed := pages_processed w2 + 1\<rparr>)
      = Inr w3" and w': "w' = w3"
    using assms(1-4,7) sp by (auto simp: process_page_def split: sum.splits)
  from store_page_download [OF assms(5,6) sp] obtain names saves where
    st: "safe_filenames pf ?recs = Inr names"
      "trace w2 = trace w1 @ [MetadataSaved (page_metadata_file period page)] @
                        map TaskSubmitted names @ map TextSaved saves"
      "metadata_files w2 = (metadata_files w1)(page_metadata_file period page \<mapsto> map to_dict ?recs)"
    by blast
  have f: "trace w1 = trace w @ replicate (http_requests w1 - http_requests w) (HttpGet period page)"
    using fetch_page_frame [OF assms(2)] by simp
  have b: "trace w3 = trace w2" "metadata_files w3 = metadata_files w2"
    using between_pages_frame [OF bp] by (simp_all add: untouched_def)
  have u: "list_all unpatched (map to_dict ?recs)"
    using page_records_unpatched [of pf period entries]
    by (simp add: list_all_iff to_dict_unpatched)
  show ?thesis
    using st f b w' u by auto
qed

text \<open>
  C6, amended. For every page whose metadata file exists, when overwriting is not
  requested the orchestrator skips the page without fetching it, and the skipped page
  is not counted: the whole state, \<open>pages_processed\<close> and the number of requests sent
  included, is the same after the page as before it.
\<close>

theorem C6_existing_page_skipped_uncounted:
  assumes "\<not> overwrite_files cfg"
    and "metadata_files w (page_metadata_file period page) \<noteq> None"
  shows "process_page pf ev cfg period first_page_data aep page (all_decisions, w) =
           Inr (all_decisions, w)"
  using assms by (simp add: process_page_def skips_page_def)


subsection \<open>The page range\<close>

text \<open>
  A section whose first page gives the number of pages processes the pages of its
  range, in increasing order, from the state that the first request has left; with no
  range the section ends in that state.
\<close>

lemma process_section_range:
  assumes "get_decisions_list pf ev cfg period 0 w = Inr (Some first_page_data, w1)"
    and "truthy first_page_data"
    and "py_get first_page_data ''totalPages'' (JInt 0) = Some (JInt total_pages)"
    and "py_get first_page_data ''totalElements'' (JInt 0) = Some (JInt total_elements)"
  shows "process_section pf ev cfg period (all_decisions, w) =
           (case pages_to_process cfg total_pages of
              None \<Rightarrow> Inr (all_decisions, w1)
            | Some pages \<Rightarrow>
                process_pages pf ev cfg period first_page_data
                  (actual_end_page cfg (limited_total_pages cfg total_pages))
                  pages (all_decisions, w1))"
  using assms by (simp add: process_section_def)


subsection \<open>Sample runs\<close>

lemma fmt_04d_0: "fmt_04d 0 = ''0000''"
  by code_simp

lemma fmt_04d_1: "fmt_04d 1 = ''0001''"
  by code_simp

lemma fmt_04d_3: "fmt_04d 3 = ''0003''"
  by code_simp

lemma page_records_new_entry:
  "page_records platform_tashkent ''new'' [new_entry] =
  [\<lparr>id' = JStr ''abcdef123456'', case_number = JStr ''4-1001-2301/1'',
    court_name_uz = JStr ''sud'', court_name_ru = JStr ''sud'',
    responsible_judge = JNull, speaker_judge = JNull, hearing_date = JStr ''2024-05-01'',
    result = JStr ''ok'', instance' = JStr ''FIRST'', categories = JArr [],
    pdf_id = JStr ''p1'', pdf_name = JStr ''a.pdf'', pdf_size = JInt 10,
    pdf_url = ''https://adolatapi1.sud.uz/public/onStream/p1'',
    text_file_path = None, text_file_relative_path = None,
    text_extraction_success = False, extracted_text = None\<rparr>]"
  by (simp add: page_records_def parse_decision_from_json_def
      parse_decision_new_def new_entry_def new_api_base_def)

lemmas run_defs =
  parse_all_decisions_def sections_to_process_def process_section_def
  get_decisions_list_def adaptive_delay_w_def adaptive_delay_def truthy_opt_int_def sleep_def
  world_init_def RateLimitInfo_init_def cfg_default_def env_serving_def session_get_def
  response_200_def check_rate_limits_def check_remaining_def decode_response_def
  pages_to_process_def limited_total_pages_def actual_end_page_def
  process_page_def skips_page_def page_metadata_file_def fmt_04d_0 fmt_04d_1 fmt_04d_3
  fetch_page_def page_entries_def
  page_records_new_entry store_page_def save_metadata_def to_dict_def download_pdfs_batch_def
  create_safe_filename_def replace_char_def forbidden_chars_def batch_one_ok_def
  process_future_def on_completed_def save_decision_with_text_def truthy_opt_str_def
  between_pages_def Let_def

text \<open>
  C3, as stated, fails in its second half: nothing writes the metadata file after the
  batch. In a run over a section of one page with one record, whose text is extracted
  and saved, the record returned has its text path and a true success flag, while the
  metadata file of the page still has a null path and a false flag at the end of the
  run; the trace shows the one write of the file, before the task.
\<close>

theorem C3_counterexample_patches_not_persisted:
  "\<not> isl run_one_entry \<and>
   map text_file_path (fst (projr run_one_entry)) =
     [Some ''extracted_text/4-1001-2301_1_abcdef12.txt''] \<and>
   map text_extraction_success (fst (projr run_one_entry)) = [True] \<and>
   map_option (map text_file_path)
     (metadata_files (snd (projr run_one_entry)) ''page_new_0000.json'') = Some [None] \<and>
   map_option (map text_extraction_success)
     (metadata_files (snd (projr run_one_entry)) ''page_new_0000.json'') = Some [False] \<and>
   pages_processed (snd (projr run_one_entry)) = 1 \<and>
   trace (snd (projr run_one_entry)) =
     [HttpGet ''new'' 0, MetadataSaved ''page_new_0000.json'',
      TaskSubmitted ''4-1001-2301_1_abcdef12'', TextSaved ''4-1001-2301_1_abcdef12.txt'']"
  by (simp add: run_one_entry_def run_defs listing_one_entry_def)

text \<open>
  C6, as stated, fails in its second half: the \<open>continue\<close> of the skip stands before the
  increment. In a run over a section of one page whose metadata file exists,
  \<open>pages_processed\<close> is 0 before and after; the only request is the one that fetches the
  first page to learn the number of pages.
\<close>

theorem C6_counterexample_skipped_page_not_counted:
  "\<not> isl run_existing_page_0 \<and>
   pages_processed world_with_page_0 = 0 \<and>
   pages_processed (snd (projr run_existing_page_0)) = 0 \<and>
   trace (snd (projr run_existing_page_0)) = [HttpGet ''new'' 0]"
  by (simp add: run_existing_page_0_def run_defs listing_one_entry_def world_with_page_0_def)



subsection \<open>Instances\<close>

text \<open>C6, amended, at the state in which the metadata file of page 0 exists.\<close>

theorem C6_existing_page_skipped_uncounted_witness:
  "\<not> overwrite_files cfg_default \<and>
   metadata_files world_with_page_0 (page_metadata_file ''new'' 0) \<noteq> None \<and>
   process_page platform_tashkent (env_serving listing_one_entry) cfg_default ''new''
     listing_one_entry 1 0 ([], world_with_page_0) = Inr ([], world_with_page_0)"
proof -
  have o: "\<not> overwrite_files cfg_default"
    by (simp add: cfg_default_def)
  have m: "metadata_files world_with_page_0 (page_metadata_file ''new'' 0) \<noteq> None"
    by (simp add: world_with_page_0_def page_metadata_file_def fmt_04d_0)
  show ?thesis
    using o m C6_existing_page_skipped_uncounted [OF o m] by simp
qed



text \<open>C3, amended, at page 0 of the section of one page with one record.\<close>

theorem C3_metadata_before_batch_not_rewritten_witness:
  "\<exists>all' w' names saves.
     \<not> skips_page cfg_default ''new'' 0 world_init \<and>
     fetch_page platform_tashkent (env_serving listing_one_entry) cfg_default ''new''
       listing_one_entry 0 world_init = Inr (Some listing_one_entry, world_init) \<and>
     truthy listing_one_entry \<and>
     page_entries listing_one_entry = Inr [new_entry] \<and>
     page_records platform_tashkent ''new'' [new_entry] \<noteq> [] \<and>
     download_pdfs cfg_default \<and>
     process_page platform_tashkent (env_serving listing_one_entry) cfg_default ''new''
       listing_one_entry 1 0 ([], world_init) = Inr (all', w') \<and>
     safe_filenames platform_tashkent (page_records platform_tashkent ''new'' [new_entry]) =
       Inr names \<and>
     trace w' = trace world_init @ [MetadataSaved (page_metadata_file ''new'' 0)] @
                  map TaskSubmitted names @ map TextSaved saves \<and>
     metadata_files w' (page_metadata_file ''new'' 0) =
       Some (map to_dict (page_records platform_tashkent ''new'' [new_entry])) \<and>
     list_all unpatched (map to_dict (page_records platform_tashkent ''new'' [new_entry]))"
proof -
  have s: "\<not> skips_page cfg_default ''new'' 0 world_init"
    by (simp add: skips_page_def world_init_def)
  have f: "fetch_page platform_tashkent (env_serving listing_one_entry) cfg_default ''new''
       listing_one_entry 0 world_init = Inr (Some listing_one_entry, world_init)"
    by (simp add: fetch_page_def cfg_default_def)
  have t: "truthy listing_one_entry"
    by (simp add: listing_one_entry_def)
  have e: "page_entries listing_one_entry = Inr [new_entry]"
    by (simp add: page_entries_def listing_one_entry_def)
  have r: "page_records platform_tashkent ''new'' [new_entry] \<noteq> []"
    by (simp add: page_records_new_entry)
  have d: "download_pdfs cfg_default"
    by (simp add: cfg_default_def)
  have "\<exists>all' w'. process_page platform_tashkent (env_serving listing_one_entry) cfg_default
       ''new'' listing_one_entry 1 0 ([], world_init) = Inr (all', w')"
    by (simp add: run_defs listing_one_entry_def)
  then obtain all' w' where p: "process_page platform_tashkent (env_serving listing_one_entry)
       cfg_default ''new'' listing_one_entry 1 0 ([], world_init) = Inr (all', w')"
    by blast
  from C3_metadata_before_batch_not_rewritten [OF s f t e r d p]
  obtain names saves where c:
    "safe_filenames platform_tashkent (page_records platform_tashkent ''new'' [new_entry]) =
       Inr names"
    "trace w' = trace world_init @ [MetadataSaved (page_metadata_file ''new'' 0)] @
                  map TaskSubmitted names @ map TextSaved saves"
    "metadata_files w' (page_metadata_file ''new'' 0) =
       Some (map to_dict (page_records platform_tashkent ''new'' [new_entry]))"
    "list_all unpatched (map to_dict (page_records platform_tashkent ''new'' [new_entry]))"
    by auto
  show ?thesis
    using s f t e r d p c by blast
qed

end
